theory Spec2Isabelle
  imports Main "HOL-Library.Word"
begin

unbundle bit_operations_syntax

section \<open>The overlay driver's network object (drivers/overlay/ov\_network.go)\<close>

text \<open>
  A shallow embedding of \<^verbatim>\<open>ov_network.go\<close>. Go pointers that may be nil are options,
  a returned \<^verbatim>\<open>error\<close> is an \<open>error option\<close> (\<open>None\<close> is Go's nil error), and a
  function that can panic returns \<open>panic + 'a\<close>: \<open>Inl k\<close> is the panic, \<open>Inr v\<close> the
  normal return of \<open>v\<close>, so that a panic is a branch of the model and is told apart
  from an error the function returns. Calls that leave the file (the datastore, the
  sandbox, netlink) take their outcome as an argument and are recorded in a list of
  effects.
\<close>

subsection \<open>Errors\<close>

datatype panic = NilDereference | TypeAssertion | SliceBounds

datatype error =
    ErrKeyModified
  | ErrKeyNotFound
  | ErrExternal string
  | ErrInvalidNetworkID
  | ErrUpdateStore string error
  | ErrNoDatastoreRelease
  | ErrNoDatastoreObtain
  | ErrDeleteMap error
  | ErrGetNetwork string error
  | ErrAllocate error
  | ErrUpdateNetwork string error
  | ErrCreateSandbox error
  | ErrSyntax
  | ErrUnmarshalType
  | ErrDecodeGateway string
  | ErrDecodeSubnet string
  | ErrIdmExhausted

subsection \<open>Package net: IP, IPMask, IPNet\<close>

text \<open>
  \<^verbatim>\<open>net.IP\<close> and \<^verbatim>\<open>net.IPMask\<close> are byte slices (nil is the empty list),
  \<^verbatim>\<open>net.IPNet\<close> is a struct of the two, and \<^verbatim>\<open>*net.IPNet\<close> is an option.
  The functions below follow the Go standard library.
\<close>

type_synonym IP = "8 word list"
type_synonym IPMask = "8 word list"

record IPNet =
  IP :: IP
  Mask :: IPMask

definition v4InV6Prefix :: "8 word list" where
  "v4InV6Prefix = [0, 0, 0, 0, 0, 0, 0, 0, 0, 0, 0xff, 0xff]"

text \<open>\<^verbatim>\<open>To4\<close> and \<^verbatim>\<open>To16\<close>; the nil result is \<open>None\<close>.\<close>

definition To4 :: "IP \<Rightarrow> IP option" where
  "To4 ip =
     (if length ip = 4 then Some ip
      else if length ip = 16 \<and> take 12 ip = v4InV6Prefix then Some (drop 12 ip)
      else None)"

definition To16 :: "IP \<Rightarrow> IP option" where
  "To16 ip =
     (if length ip = 4 then Some (v4InV6Prefix @ ip)
      else if length ip = 16 then Some ip
      else None)"

definition Equal :: "IP \<Rightarrow> IP \<Rightarrow> bool" where
  "Equal ip x =
     (if length ip = length x then ip = x
      else if length ip = 4 \<and> length x = 16 then take 12 x = v4InV6Prefix \<and> ip = drop 12 x
      else if length ip = 16 \<and> length x = 4 then take 12 ip = v4InV6Prefix \<and> drop 12 ip = x
      else False)"

text \<open>
  \<^verbatim>\<open>simpleMaskLength\<close>: the number of leading one bits, or -1 when a one bit follows
  a zero bit. \<open>count_ones k v\<close> is the inner loop
  \<^verbatim>\<open>for v&0x80 != 0 { n++; v <<= 1 }\<close>, which leaves a byte after at most 8 rounds.
\<close>

fun count_ones :: "nat \<Rightarrow> 8 word \<Rightarrow> nat \<times> 8 word" where
  "count_ones 0 v = (0, v)"
| "count_ones (Suc k) v =
     (if v AND 0x80 \<noteq> 0
      then (case count_ones k (push_bit 1 v) of (n, v') \<Rightarrow> (Suc n, v'))
      else (0, v))"

fun simpleMaskLength :: "IPMask \<Rightarrow> int" where
  "simpleMaskLength [] = 0"
| "simpleMaskLength (v # rest) =
     (if v = 0xff
      then (let r = simpleMaskLength rest in if r = -1 then -1 else 8 + r)
      else (case count_ones 8 v of (n, v') \<Rightarrow>
              if v' \<noteq> 0 then -1
              else if list_ex (\<lambda>b. b \<noteq> 0) rest then -1
              else int n))"

definition Size :: "IPMask \<Rightarrow> int \<times> int" where
  "Size m =
     (let ones = simpleMaskLength m in
      if ones = -1 then (0, 0) else (ones, int (length m) * 8))"

definition networkNumberAndMask :: "IPNet \<Rightarrow> (IP \<times> IPMask) option" where
  "networkNumberAndMask n =
     (case (case To4 (IP n) of
              Some ip4 \<Rightarrow> Some ip4
            | None \<Rightarrow> if length (IP n) \<noteq> 16 then None else Some (IP n)) of
        None \<Rightarrow> None
      | Some ip \<Rightarrow>
          if length (Mask n) = 4 then (if length ip \<noteq> 4 then None else Some (ip, Mask n))
          else if length (Mask n) = 16
          then (if length ip = 4 then Some (ip, drop 12 (Mask n)) else Some (ip, Mask n))
          else None)"

definition Contains :: "IPNet \<Rightarrow> IP \<Rightarrow> bool" where
  "Contains n ip0 =
     (let (nn, m) = (case networkNumberAndMask n of None \<Rightarrow> ([], []) | Some p \<Rightarrow> p);
          ip = (case To4 ip0 of Some x \<Rightarrow> x | None \<Rightarrow> ip0)
      in if length ip \<noteq> length nn then False
         else list_all (\<lambda>(a, b). a = b)
                (zip (map (\<lambda>(a, b). a AND b) (zip nn m)) (map (\<lambda>(a, b). a AND b) (zip ip m))))"

subsection \<open>The data model\<close>

text \<open>
  \<^verbatim>\<open>*sync.Once\<close> is the flag whether \<^verbatim>\<open>Do\<close> has run. The fields \<^verbatim>\<open>once\<close> and
  \<^verbatim>\<open>initErr\<close> exist on both structs; the subnet's are \<open>s_once\<close> and \<open>s_initErr\<close>,
  the network's \<open>n_once\<close> and \<open>n_initErr\<close>.
\<close>

datatype once = Fresh | Done

record subnet =
  s_once :: once
  vxlanName :: string
  brName :: string
  vni :: "32 word"
  s_initErr :: "error option"
  subnetIP :: "IPNet option"
  gwIP :: "IPNet option"

text \<open>
  The sandbox handle (\<^verbatim>\<open>osl.Sandbox\<close>): the arguments it was created with (the epoch and
  the network id that make its key, and \<^verbatim>\<open>osCreate\<close>) and the interfaces it reports.
\<close>

record sandbox =
  sb_epoch :: "64 word"
  sb_id :: string
  sb_osCreate :: bool
  sb_ifaces :: "string list"

text \<open>
  The network. \<open>nid\<close> is the field \<^verbatim>\<open>id\<close>. \<^verbatim>\<open>joinCnt\<close> and \<^verbatim>\<open>initEpoch\<close> are Go
  \<^verbatim>\<open>int\<close>s: 64-bit words read as signed. The embedded \<^verbatim>\<open>*networkConfiguration\<close> is
  flattened into \<open>subnets\<close> and \<open>disableDefaultGW\<close>; the only network with a nil
  configuration is the one \<^verbatim>\<open>getNetworkFromStore\<close> builds just before \<^verbatim>\<open>SetValue\<close>,
  and \<^verbatim>\<open>SetValue\<close> treats it exactly like one with no subnets. The back pointer
  \<^verbatim>\<open>driver\<close> is the driver state passed beside the network; the endpoint table and
  the mutex play no part in the functions modelled.
\<close>

record network =
  nid :: string
  dbIndex :: "64 word"
  dbExists :: bool
  sbox :: "sandbox option"
  joinCnt :: "64 word"
  n_once :: once
  initEpoch :: "64 word"
  n_initErr :: "error option"
  subnets :: "subnet list"
  disableDefaultGW :: bool

text \<open>The process-wide variables \<^verbatim>\<open>hostMode\<close> and \<^verbatim>\<open>hostModeOnce\<close>.\<close>

record globals =
  hostMode :: bool
  hostModeOnce :: once

text \<open>What the functions do outside the network object, in the order they do it.\<close>

datatype effect =
    IfaceRemove string
  | RemoveFilters string string
  | DeleteVxlan string
  | CreateVxlan string "32 word"
  | RemoveNetworkChain string
  | AddNetworkChain string
  | SandboxDestroy
  | NewSandbox "64 word" string bool
  | PeerDbUpdateSandbox string
  | NlSubscribe
  | GoWatchMiss
  | OpenNetNs
  | CloseNetNs
  | LinkSetNsFd string
  | StoreGet string
  | StorePut network
  | StoreDelete string
  | PeerAdd string string IP IPMask "8 word list" IP bool

subsection \<open>Subnet lookup helpers\<close>

text \<open>
  Both helpers return a pointer to one of the network's subnets or nil: here the index of
  the subnet, or \<open>None\<close>. A nil \<^verbatim>\<open>subnetIP\<close> or a nil \<^verbatim>\<open>ip\<close> is dereferenced by
  \<^verbatim>\<open>.Mask\<close>, which panics.
\<close>

fun getSubnetforIP_from :: "nat \<Rightarrow> subnet list \<Rightarrow> IPNet option \<Rightarrow> panic + nat option" where
  "getSubnetforIP_from k [] ip = Inr None"
| "getSubnetforIP_from k (s # ss) ip =
     (case subnetIP s of
        None \<Rightarrow> Inl NilDereference
      | Some sn \<Rightarrow>
          (case ip of
             None \<Rightarrow> Inl NilDereference
           | Some ipn \<Rightarrow>
               if fst (Size (Mask sn)) \<noteq> fst (Size (Mask ipn))
               then getSubnetforIP_from (Suc k) ss ip
               else if Contains sn (IP ipn) then Inr (Some k)
               else getSubnetforIP_from (Suc k) ss ip))"

definition getSubnetforIP :: "network \<Rightarrow> IPNet option \<Rightarrow> panic + nat option" where
  "getSubnetforIP n ip = getSubnetforIP_from 0 (subnets n) ip"

fun getMatchingSubnet_from :: "nat \<Rightarrow> subnet list \<Rightarrow> IPNet \<Rightarrow> panic + nat option" where
  "getMatchingSubnet_from k [] ipn = Inr None"
| "getMatchingSubnet_from k (s # ss) ipn =
     (case subnetIP s of
        None \<Rightarrow> Inl NilDereference
      | Some sn \<Rightarrow>
          if fst (Size (Mask sn)) \<noteq> fst (Size (Mask ipn))
          then getMatchingSubnet_from (Suc k) ss ipn
          else if Equal (IP sn) (IP ipn) then Inr (Some k)
          else getMatchingSubnet_from (Suc k) ss ipn)"

definition getMatchingSubnet :: "network \<Rightarrow> IPNet option \<Rightarrow> panic + nat option" where
  "getMatchingSubnet n ip =
     (case ip of
        None \<Rightarrow> Inr None
      | Some ipn \<Rightarrow> getMatchingSubnet_from 0 (subnets n) ipn)"

subsection \<open>The host-mode probe\<close>

text \<open>
  What the probe meets: the value of the environment variable
  \<^verbatim>\<open>_OVERLAY_HOST_MODE\<close> and the error (or nil) of each call it makes.
\<close>

record probe =
  env_OVERLAY_HOST_MODE :: string
  createVxlan_err :: "error option"
  openFile_err :: "error option"
  linkByName_err :: "error option"
  linkSetNsFd_err :: "error option"

text \<open>
  \<^verbatim>\<open>setHostMode\<close>. The deferred calls run at the return in reverse order: the file is
  closed, then the probe device deleted.
\<close>

definition setHostMode :: "probe \<Rightarrow> globals \<Rightarrow> globals \<times> effect list" where
  "setHostMode p g =
     (if env_OVERLAY_HOST_MODE p \<noteq> [] then (g\<lparr>hostMode := True\<rparr>, [])
      else case createVxlan_err p of
        Some e \<Rightarrow> (g, [])
      | None \<Rightarrow>
         (case openFile_err p of
            Some e \<Rightarrow> (g, [CreateVxlan ''testvxlan'' 1, DeleteVxlan ''testvxlan''])
          | None \<Rightarrow>
             (case linkByName_err p of
                Some e \<Rightarrow>
                  (g, [CreateVxlan ''testvxlan'' 1, OpenNetNs, CloseNetNs,
                       DeleteVxlan ''testvxlan''])
              | None \<Rightarrow>
                 (case linkSetNsFd_err p of
                    Some e \<Rightarrow>
                      (g\<lparr>hostMode := True\<rparr>,
                       [CreateVxlan ''testvxlan'' 1, OpenNetNs, CloseNetNs,
                        DeleteVxlan ''testvxlan''])
                  | None \<Rightarrow>
                      (g, [CreateVxlan ''testvxlan'' 1, OpenNetNs,
                           LinkSetNsFd ''testvxlan'', CloseNetNs,
                           DeleteVxlan ''testvxlan''])))))"

text \<open>\<^verbatim>\<open>hostModeOnce.Do(setHostMode)\<close>.\<close>

definition hostModeOnce_Do :: "probe \<Rightarrow> globals \<Rightarrow> globals \<times> effect list" where
  "hostModeOnce_Do p g =
     (if hostModeOnce g = Fresh
      then (case setHostMode p g of (g', fx) \<Rightarrow> (g'\<lparr>hostModeOnce := Done\<rparr>, fx))
      else (g, []))"

subsection \<open>Sandbox bring-up and teardown\<close>

text \<open>
  \<^verbatim>\<open>n.id[:12]\<close> panics when the id has fewer than 12 bytes; the slice is taken only in
  host mode.
\<close>

fun destroy_subnets :: "bool \<Rightarrow> string \<Rightarrow> subnet list \<Rightarrow> (panic + unit) \<times> effect list" where
  "destroy_subnets hm i [] = (Inr (), [])"
| "destroy_subnets hm i (s # ss) =
     (if hm \<and> length i < 12 then (Inl SliceBounds, [])
      else
        (let fx = (if hm then [RemoveFilters (take 12 i) (brName s)] else []) @
                  (if vxlanName s \<noteq> [] then [DeleteVxlan (vxlanName s)] else [])
         in case destroy_subnets hm i ss of (r, fx') \<Rightarrow> (r, fx @ fx')))"

definition destroySandbox :: "globals \<Rightarrow> network \<Rightarrow> (panic + unit) \<times> network \<times> effect list" where
  "destroySandbox g n =
     (case sbox n of
        None \<Rightarrow> (Inr (), n, [])
      | Some sb \<Rightarrow>
         (let fx0 = map IfaceRemove (sb_ifaces sb) in
          case destroy_subnets (hostMode g) (nid n) (subnets n) of
            (Inl k, fx1) \<Rightarrow> (Inl k, n, fx0 @ fx1)
          | (Inr u, fx1) \<Rightarrow>
              if hostMode g \<and> length (nid n) < 12 then (Inl SliceBounds, n, fx0 @ fx1)
              else (Inr (), n\<lparr>sbox := None\<rparr>,
                    fx0 @ fx1 @
                    (if hostMode g then [RemoveNetworkChain (take 12 (nid n))] else []) @
                    [SandboxDestroy])))"

text \<open>
  What \<^verbatim>\<open>initSandbox\<close> meets: the probe's outcomes (used only when the probe has not
  run yet) and the errors of \<^verbatim>\<open>addNetworkChain\<close> and \<^verbatim>\<open>osl.NewSandbox\<close>. The error of
  the netlink subscription is assigned inside the closure and never returned.
\<close>

record init_env =
  ie_probe :: probe
  addNetworkChain_err :: "error option"
  newSandbox_err :: "error option"

definition initSandbox ::
  "init_env \<Rightarrow> globals \<Rightarrow> network \<Rightarrow> (panic + error option) \<times> globals \<times> network \<times> effect list" where
  "initSandbox e g n =
     (let n1 = n\<lparr>initEpoch := initEpoch n + 1\<rparr> in
      case hostModeOnce_Do (ie_probe e) g of (g1, fx0) \<Rightarrow>
        if hostMode g1 \<and> length (nid n1) < 12 then (Inl SliceBounds, g1, n1, fx0)
        else if hostMode g1 \<and> addNetworkChain_err e \<noteq> None
        then (Inr (addNetworkChain_err e), g1, n1, fx0)
        else
          (let fx1 = fx0 @ (if hostMode g1 then [AddNetworkChain (take 12 (nid n1))] else []) in
           case newSandbox_err e of
             Some err \<Rightarrow> (Inr (Some (ErrCreateSandbox err)), g1, n1, fx1)
           | None \<Rightarrow>
               (Inr None, g1,
                n1\<lparr>sbox := Some \<lparr>sb_epoch = initEpoch n1, sb_id = nid n1,
                                  sb_osCreate = (\<not> hostMode g1), sb_ifaces = []\<rparr>\<rparr>,
                fx1 @ [NewSandbox (initEpoch n1) (nid n1) (\<not> hostMode g1),
                       PeerDbUpdateSandbox (nid n1), NlSubscribe, GoWatchMiss])))"

definition incEndpointCount :: "network \<Rightarrow> network" where
  "incEndpointCount n = n\<lparr>joinCnt := joinCnt n + 1\<rparr>"

text \<open>
  \<^verbatim>\<open>joinSandbox\<close>: \<^verbatim>\<open>n.once.Do\<close> runs \<^verbatim>\<open>initSandbox\<close> only on a fresh guard, and marks
  the guard done even when the function panics.
\<close>

definition joinSandbox ::
  "init_env \<Rightarrow> globals \<Rightarrow> network \<Rightarrow> (panic + error option) \<times> globals \<times> network \<times> effect list" where
  "joinSandbox e g n =
     (if n_once n = Fresh
      then (case initSandbox e g n of
              (Inl k, g', n', fx) \<Rightarrow> (Inl k, g', n'\<lparr>n_once := Done\<rparr>, fx)
            | (Inr r, g', n', fx) \<Rightarrow> (Inr r, g', n'\<lparr>n_once := Done, n_initErr := r\<rparr>, fx))
      else (Inr (n_initErr n), g, n, []))"

definition leaveSandbox :: "globals \<Rightarrow> network \<Rightarrow> (panic + unit) \<times> network \<times> effect list" where
  "leaveSandbox g n =
     (let n1 = n\<lparr>joinCnt := joinCnt n - 1\<rparr> in
      if joinCnt n1 \<noteq> 0 then (Inr (), n1, [])
      else destroySandbox g
             (n1\<lparr>n_once := Fresh, subnets := map (\<lambda>s. s\<lparr>s_once := Fresh\<rparr>) (subnets n1)\<rparr>))"

subsection \<open>The neighbor-miss watcher\<close>

text \<open>
  A netlink message with the outcome of \<^verbatim>\<open>netlink.NeighDeserialize\<close> on its data. The
  peer database is the function \<open>resolvePeer\<close>; \<^verbatim>\<open>peerAdd\<close> is an effect (its error is
  only logged).
\<close>

record neigh =
  neigh_IP :: IP
  neigh_State :: "64 word"

record nlmsg =
  msg_type :: "16 word"
  msg_neigh :: "error + neigh"

definition RTM_NEWNEIGH :: "16 word" where "RTM_NEWNEIGH = 28"
definition RTM_GETNEIGH :: "16 word" where "RTM_GETNEIGH = 30"
definition NUD_INCOMPLETE :: "64 word" where "NUD_INCOMPLETE = 0x01"
definition NUD_STALE :: "64 word" where "NUD_STALE = 0x04"

type_synonym resolver = "string \<Rightarrow> IP \<Rightarrow> error + (8 word list \<times> IPMask \<times> IP)"

text \<open>The body of the inner loop of \<^verbatim>\<open>watchMiss\<close>, for one message.\<close>

definition watchMiss_msg :: "resolver \<Rightarrow> string \<Rightarrow> nlmsg \<Rightarrow> effect list" where
  "watchMiss_msg resolvePeer i msg =
     (if msg_type msg \<noteq> RTM_GETNEIGH \<and> msg_type msg \<noteq> RTM_NEWNEIGH then []
      else case msg_neigh msg of
        Inl e \<Rightarrow> []
      | Inr nb \<Rightarrow>
          if To16 (neigh_IP nb) \<noteq> None then []
          else if neigh_State nb AND (NUD_STALE OR NUD_INCOMPLETE) = 0 then []
          else (case resolvePeer i (neigh_IP nb) of
                  Inl e \<Rightarrow> []
                | Inr (mac, IPmask, vtep) \<Rightarrow>
                    [PeerAdd i ''dummy'' (neigh_IP nb) IPmask mac vtep True]))"

text \<open>
  The outer loop never returns; \<open>watchMiss\<close> runs it over the batches received so far.
  A failed receive is logged and the loop goes on.
\<close>

definition watchMiss :: "resolver \<Rightarrow> string \<Rightarrow> (error + nlmsg list) list \<Rightarrow> effect list" where
  "watchMiss resolvePeer i batches =
     concat (map (\<lambda>b. case b of
                         Inl e \<Rightarrow> []
                       | Inr msgs \<Rightarrow> concat (map (watchMiss_msg resolvePeer i) msgs)) batches)"

subsection \<open>The identifier allocator and the driver\<close>

text \<open>
  Modelled from the spec: the IdentifierAllocator (package \<^verbatim>\<open>idm\<close>) is not among the
  sources. It hands out ids of a range \<open>idm_start .. idm_end\<close>, never one that is live,
  reports exhaustion as an error, and \<^verbatim>\<open>Release\<close> makes an id free again (releasing an
  id that is not live changes nothing). \<open>GetID\<close> takes the least free id.
\<close>

record idm =
  idm_start :: nat
  idm_end :: nat
  idm_live :: "nat set"

definition GetID :: "idm \<Rightarrow> (error + nat) \<times> idm" where
  "GetID a =
     (case find (\<lambda>i. i \<notin> idm_live a) [idm_start a ..< Suc (idm_end a)] of
        None \<Rightarrow> (Inl ErrIdmExhausted, a)
      | Some i \<Rightarrow> (Inr i, a\<lparr>idm_live := insert i (idm_live a)\<rparr>))"

definition Release :: "idm \<Rightarrow> nat \<Rightarrow> idm" where
  "Release a i = a\<lparr>idm_live := idm_live a - {i}\<rparr>"

text \<open>
  The driver: the registry \<^verbatim>\<open>networks\<close>, the datastore handle \<^verbatim>\<open>store\<close> (nil when no
  datastore is configured) and the allocator \<^verbatim>\<open>vxlanIdm\<close>.
\<close>

datatype datastore = DataStore

record driver =
  networks :: "string \<rightharpoonup> network"
  store :: "datastore option"
  vxlanIdm :: idm

definition addNetwork :: "driver \<Rightarrow> network \<Rightarrow> driver" where
  "addNetwork d n = d\<lparr>networks := (networks d)(nid n \<mapsto> n)\<rparr>"

definition deleteNetwork :: "driver \<Rightarrow> string \<Rightarrow> driver" where
  "deleteNetwork d i = d\<lparr>networks := (networks d)(i := None)\<rparr>"

text \<open>
  \<^verbatim>\<open>writeToStore\<close> calls \<^verbatim>\<open>PutObjectAtomic\<close> on the store handle; on a nil handle the call
  panics. The store's answer \<open>put\<close> is an error or the new index, which
  \<^verbatim>\<open>PutObjectAtomic\<close> passes to \<^verbatim>\<open>SetIndex\<close>.
\<close>

definition SetIndex :: "network \<Rightarrow> 64 word \<Rightarrow> network" where
  "SetIndex n index = n\<lparr>dbIndex := index, dbExists := True\<rparr>"

definition writeToStore ::
  "driver \<Rightarrow> network \<Rightarrow> error + 64 word \<Rightarrow> (panic + error option) \<times> network \<times> effect list" where
  "writeToStore d n put =
     (case store d of
        None \<Rightarrow> (Inl NilDereference, n, [])
      | Some h \<Rightarrow>
          (case put of
             Inl e \<Rightarrow> (Inr (Some e), n, [])
           | Inr index \<Rightarrow> (Inr None, SetIndex n index, [StorePut n])))"

subsection \<open>CreateNetwork\<close>

text \<open>
  The option map \<^verbatim>\<open>map[string]interface{}\<close>: a value is a \<^verbatim>\<open>map[string]string\<close>, nil, or
  of another type. The two keys of package \<^verbatim>\<open>netlabel\<close> are parameters.
\<close>

datatype optval = StringMap "string \<rightharpoonup> string" | NilValue | OtherValue

record netlabel =
  GenericData :: string
  DisableDefaultGW :: string

record IPAMData =
  Pool :: "IPNet option"
  Gateway :: "IPNet option"

definition parseNetworkOptions :: "netlabel \<Rightarrow> network \<Rightarrow> (string \<rightharpoonup> optval) \<Rightarrow> network" where
  "parseNetworkOptions L n opt =
     (case opt (GenericData L) of
        Some (StringMap m) \<Rightarrow>
          (if m (DisableDefaultGW L) \<noteq> None then n\<lparr>disableDefaultGW := True\<rparr> else n)
      | _ \<Rightarrow> n)"

text \<open>
  What \<^verbatim>\<open>CreateNetwork\<close> meets: the error of \<^verbatim>\<open>d.configure()\<close> and the store's answer to
  the put. \<open>d\<close> is the driver as \<^verbatim>\<open>configure\<close> leaves it.
\<close>

record create_env =
  configure_err :: "error option"
  put_res :: "error + 64 word"

definition new_subnet :: "IPAMData \<Rightarrow> subnet" where
  "new_subnet ipd = \<lparr>s_once = Fresh, vxlanName = [], brName = [], vni = 0, s_initErr = None,
     subnetIP = Pool ipd, gwIP = Gateway ipd\<rparr>"

definition new_network :: "string \<Rightarrow> network" where
  "new_network i = \<lparr>nid = i, dbIndex = 0, dbExists = False, sbox = None, joinCnt = 0,
     n_once = Fresh, initEpoch = 0, n_initErr = None, subnets = [], disableDefaultGW = False\<rparr>"

definition CreateNetwork ::
  "netlabel \<Rightarrow> create_env \<Rightarrow> driver \<Rightarrow> string \<Rightarrow> (string \<rightharpoonup> optval) \<Rightarrow> IPAMData list \<Rightarrow>
   IPAMData list \<Rightarrow> (panic + error option) \<times> driver \<times> effect list" where
  "CreateNetwork L env d i opt ipV4Data ipV6Data =
     (if i = [] then (Inr (Some ErrInvalidNetworkID), d, [])
      else case configure_err env of
        Some err \<Rightarrow> (Inr (Some err), d, [])
      | None \<Rightarrow>
         (let n0 = parseNetworkOptions L (new_network i) opt;
              n = foldl (\<lambda>n ipd. n\<lparr>subnets := subnets n @ [new_subnet ipd]\<rparr>) n0 ipV4Data
          in case writeToStore d n (put_res env) of
               (Inl k, n', fx) \<Rightarrow> (Inl k, d, fx)
             | (Inr (Some err), n', fx) \<Rightarrow> (Inr (Some (ErrUpdateStore (nid n') err)), d, fx)
             | (Inr None, n', fx) \<Rightarrow> (Inr None, addNetwork d n', fx)))"

subsection \<open>releaseVxlanID\<close>

text \<open>The loop that releases every subnet's id and zeroes it.\<close>

fun release_all :: "idm \<Rightarrow> subnet list \<Rightarrow> idm \<times> subnet list" where
  "release_all a [] = (a, [])"
| "release_all a (s # ss) =
     (case release_all (Release a (unat (vni s))) ss of
        (a', ss') \<Rightarrow> (a', s\<lparr>vni := 0\<rparr> # ss'))"

text \<open>\<open>del\<close> is the error (or nil) of \<^verbatim>\<open>DeleteObjectAtomic\<close>.\<close>

definition releaseVxlanID ::
  "error option \<Rightarrow> driver \<Rightarrow> network \<Rightarrow> error option \<times> driver \<times> network \<times> effect list" where
  "releaseVxlanID del d n =
     (if store d = None then (Some ErrNoDatastoreRelease, d, n, [])
      else if subnets n = [] then (None, d, n, [])
      else case del of
        Some err \<Rightarrow>
          if err = ErrKeyModified \<or> err = ErrKeyNotFound then (None, d, n, [])
          else (Some (ErrDeleteMap err), d, n, [])
      | None \<Rightarrow>
          (case release_all (vxlanIdm d) (subnets n) of
             (a', ss') \<Rightarrow>
               (None, d\<lparr>vxlanIdm := a'\<rparr>, n\<lparr>subnets := ss'\<rparr>, [StoreDelete (nid n)])))"

subsection \<open>JSON values and the library functions the codec calls\<close>

text \<open>
  The codec works on JSON texts through \<^verbatim>\<open>encoding/json\<close>. The model works on the value
  a JSON text denotes; a byte string that is not a JSON text is \<open>None\<close>. A number is
  an integer literal (the encoder writes no other). An object keeps its members in the
  order of the text; decoding into a Go map lets a later member of the same name win.
\<close>

datatype json =
    JNull
  | JBool bool
  | JNum int
  | JStr string
  | JArr "json list"
  | JObj "(string \<times> json) list"

definition obj_get :: "(string \<times> json) list \<Rightarrow> string \<Rightarrow> json option" where
  "obj_get kvs k = map_of (rev kvs) k"

text \<open>
  Functions the file calls and the sources do not hold: \<^verbatim>\<open>types.ParseCIDR\<close> (on an error
  the \<^verbatim>\<open>*net.IPNet\<close> it returns is nil), \<^verbatim>\<open>(*net.IPNet).String\<close> (on a nil receiver it
  panics or prints, by the version of Go) and the conversion of a \<^verbatim>\<open>float64\<close> outside
  \<open>0 .. 2^32 - 1\<close> to \<^verbatim>\<open>uint32\<close>, which Go leaves to the implementation.
\<close>

record lib =
  ParseCIDR :: "string \<Rightarrow> error + IPNet"
  IPNet_String :: "IPNet option \<Rightarrow> panic + string"
  float64_to_uint32 :: "int \<Rightarrow> 32 word"

definition to_uint32 :: "lib \<Rightarrow> int \<Rightarrow> 32 word" where
  "to_uint32 L k = (if 0 \<le> k \<and> k < 2 ^ 32 then word_of_int k else float64_to_uint32 L k)"

definition ptr :: "error + IPNet \<Rightarrow> IPNet option" where
  "ptr r = (case r of Inl e \<Rightarrow> None | Inr x \<Rightarrow> Some x)"

subsection \<open>Encoding: MarshalJSON and Value\<close>

text \<open>\<^verbatim>\<open>json.Marshal\<close> of a map writes the keys in sorted order.\<close>

definition subnet_MarshalJSON :: "lib \<Rightarrow> subnet \<Rightarrow> panic + json" where
  "subnet_MarshalJSON L s =
     (case IPNet_String L (gwIP s) of
        Inl k \<Rightarrow> Inl k
      | Inr g \<Rightarrow>
          (case IPNet_String L (subnetIP s) of
             Inl k \<Rightarrow> Inl k
           | Inr sn \<Rightarrow>
               Inr (JObj [(''gwIP'', JStr g), (''subnetIP'', JStr sn),
                          (''vni'', JNum (uint (vni s)))])))"

fun marshal_subnets :: "lib \<Rightarrow> subnet list \<Rightarrow> panic + json list" where
  "marshal_subnets L [] = Inr []"
| "marshal_subnets L (s # ss) =
     (case subnet_MarshalJSON L s of
        Inl k \<Rightarrow> Inl k
      | Inr j \<Rightarrow>
          (case marshal_subnets L ss of
             Inl k \<Rightarrow> Inl k
           | Inr js \<Rightarrow> Inr (j # js)))"

text \<open>
  \<^verbatim>\<open>networkConfiguration.MarshalJSON\<close>, on the configuration part of the network, and
  \<^verbatim>\<open>Value\<close>, which marshals it.
\<close>

definition nc_MarshalJSON :: "lib \<Rightarrow> subnet list \<Rightarrow> bool \<Rightarrow> panic + json" where
  "nc_MarshalJSON L ss dgw =
     (case marshal_subnets L ss of
        Inl k \<Rightarrow> Inl k
      | Inr js \<Rightarrow> Inr (JObj [(''disableDefaultGW'', JBool dgw), (''subnets'', JArr js)]))"

definition Value :: "lib \<Rightarrow> network \<Rightarrow> panic + json" where
  "Value L n = nc_MarshalJSON L (subnets n) (disableDefaultGW n)"

text \<open>
  Modelled from the spec: the legacy encoding, "a bare array of {SubnetIP, GwIP, Vni}
  records"; the sources hold the record type \<^verbatim>\<open>subnetJSON\<close> and no encoder for it.
\<close>

definition subnetJSON_Marshal :: "lib \<Rightarrow> subnet \<Rightarrow> panic + json" where
  "subnetJSON_Marshal L s =
     (case IPNet_String L (subnetIP s) of
        Inl k \<Rightarrow> Inl k
      | Inr sn \<Rightarrow>
          (case IPNet_String L (gwIP s) of
             Inl k \<Rightarrow> Inl k
           | Inr g \<Rightarrow>
               Inr (JObj [(''SubnetIP'', JStr sn), (''GwIP'', JStr g),
                          (''Vni'', JNum (uint (vni s)))])))"

fun legacy_records :: "lib \<Rightarrow> subnet list \<Rightarrow> panic + json list" where
  "legacy_records L [] = Inr []"
| "legacy_records L (s # ss) =
     (case subnetJSON_Marshal L s of
        Inl k \<Rightarrow> Inl k
      | Inr j \<Rightarrow>
          (case legacy_records L ss of
             Inl k \<Rightarrow> Inl k
           | Inr js \<Rightarrow> Inr (j # js)))"

definition legacyEncoding :: "lib \<Rightarrow> subnet list \<Rightarrow> panic + json" where
  "legacyEncoding L ss =
     (case legacy_records L ss of
        Inl k \<Rightarrow> Inl k
      | Inr js \<Rightarrow> Inr (JArr js))"

subsection \<open>Decoding: UnmarshalJSON\<close>

text \<open>
  The subnet a decoder fills starts as the zero value; its guard is a nil pointer that
  is never used (\<^verbatim>\<open>SetValue\<close> reads \<^verbatim>\<open>vni\<close>, \<^verbatim>\<open>subnetIP\<close> and \<^verbatim>\<open>gwIP\<close> only).
\<close>

definition zero_subnet :: subnet where
  "zero_subnet = \<lparr>s_once = Fresh, vxlanName = [], brName = [], vni = 0, s_initErr = None,
     subnetIP = None, gwIP = None\<rparr>"

text \<open>
  \<^verbatim>\<open>subnet.UnmarshalJSON\<close>: the error it returns and the subnet as filled so far. A type
  assertion on a member that is missing, null or of another type panics.
\<close>

definition subnet_UnmarshalJSON :: "lib \<Rightarrow> json \<Rightarrow> panic + (error option \<times> subnet)" where
  "subnet_UnmarshalJSON L j =
     (case j of
        JObj kvs \<Rightarrow>
          (case obj_get kvs ''vni'' of
             Some (JNum k) \<Rightarrow>
               (let s1 = zero_subnet\<lparr>vni := to_uint32 L k\<rparr> in
                case obj_get kvs ''gwIP'' of
                  Some (JStr g) \<Rightarrow>
                    (case ParseCIDR L g of
                       Inl e \<Rightarrow> Inr (Some (ErrDecodeGateway g), s1)
                     | Inr gw \<Rightarrow>
                        (let s2 = s1\<lparr>gwIP := Some gw\<rparr> in
                         case obj_get kvs ''subnetIP'' of
                           Some (JStr t) \<Rightarrow>
                             (case ParseCIDR L t of
                                Inl e \<Rightarrow> Inr (Some (ErrDecodeSubnet t), s2)
                              | Inr sn \<Rightarrow> Inr (None, s2\<lparr>subnetIP := Some sn\<rparr>))
                         | _ \<Rightarrow> Inl TypeAssertion))
                | _ \<Rightarrow> Inl TypeAssertion)
           | _ \<Rightarrow> Inl TypeAssertion)
      | JNull \<Rightarrow> Inl TypeAssertion
      | _ \<Rightarrow> Inr (Some ErrUnmarshalType, zero_subnet))"

text \<open>
  \<^verbatim>\<open>json.Unmarshal(sj, &subnets)\<close> into a \<^verbatim>\<open>[]*subnet\<close>, its error dropped: a null
  element is a nil pointer; any other element is handed to \<^verbatim>\<open>subnet.UnmarshalJSON\<close>, and
  the first error ends the decoding with the slice as filled so far.
\<close>

fun decode_subnets :: "lib \<Rightarrow> json list \<Rightarrow> panic + subnet option list" where
  "decode_subnets L [] = Inr []"
| "decode_subnets L (x # xs) =
     (if x = JNull
      then (case decode_subnets L xs of
              Inl k \<Rightarrow> Inl k
            | Inr ss \<Rightarrow> Inr (None # ss))
      else (case subnet_UnmarshalJSON L x of
              Inl k \<Rightarrow> Inl k
            | Inr (Some e, s) \<Rightarrow> Inr [Some s]
            | Inr (None, s) \<Rightarrow>
                (case decode_subnets L xs of
                   Inl k \<Rightarrow> Inl k
                 | Inr ss \<Rightarrow> Inr (Some s # ss))))"

text \<open>
  \<^verbatim>\<open>networkConfiguration.UnmarshalJSON\<close>: the error it returns, and the decoded subnets
  and flag.
\<close>

definition nc_UnmarshalJSON ::
  "lib \<Rightarrow> json \<Rightarrow> panic + (error option \<times> subnet option list \<times> bool)" where
  "nc_UnmarshalJSON L j =
     (case j of
        JObj kvs \<Rightarrow>
          (case obj_get kvs ''disableDefaultGW'' of
             Some (JBool b) \<Rightarrow>
               (case obj_get kvs ''subnets'' of
                  Some (JArr xs) \<Rightarrow>
                    (case decode_subnets L xs of
                       Inl k \<Rightarrow> Inl k
                     | Inr ss \<Rightarrow> Inr (None, ss, b))
                | _ \<Rightarrow> Inr (None, [], b))
           | _ \<Rightarrow> Inl TypeAssertion)
      | JNull \<Rightarrow> Inl TypeAssertion
      | _ \<Rightarrow> Inr (Some ErrUnmarshalType, [], False))"

subsection \<open>Decoding the legacy array\<close>

record subnetJSON =
  SubnetIP :: string
  GwIP :: string
  Vni :: "32 word"

text \<open>
  \<^verbatim>\<open>encoding/json\<close> matches a member name with a struct field without regard to the case of
  its ASCII letters; a null member leaves the field as it is; a member of the wrong type
  is noted as an error and the decoding goes on. The flag is whether an error was noted.
\<close>

definition to_lower :: "char \<Rightarrow> char" where
  "to_lower c =
     (let k = (of_char c :: nat) in if 65 \<le> k \<and> k \<le> 90 then char_of (k + 32) else c)"

definition fold_eq :: "string \<Rightarrow> string \<Rightarrow> bool" where
  "fold_eq a b = (map to_lower a = map to_lower b)"

fun decode_fields :: "(string \<times> json) list \<Rightarrow> subnetJSON \<Rightarrow> bool \<Rightarrow> subnetJSON \<times> bool" where
  "decode_fields [] sj err = (sj, err)"
| "decode_fields ((k, v) # kvs) sj err =
     (if fold_eq k ''SubnetIP''
      then (case v of
              JStr t \<Rightarrow> decode_fields kvs (sj\<lparr>SubnetIP := t\<rparr>) err
            | JNull \<Rightarrow> decode_fields kvs sj err
            | _ \<Rightarrow> decode_fields kvs sj True)
      else if fold_eq k ''GwIP''
      then (case v of
              JStr t \<Rightarrow> decode_fields kvs (sj\<lparr>GwIP := t\<rparr>) err
            | JNull \<Rightarrow> decode_fields kvs sj err
            | _ \<Rightarrow> decode_fields kvs sj True)
      else if fold_eq k ''Vni''
      then (case v of
              JNum i \<Rightarrow>
                if 0 \<le> i \<and> i < 2 ^ 32 then decode_fields kvs (sj\<lparr>Vni := word_of_int i\<rparr>) err
                else decode_fields kvs sj True
            | JNull \<Rightarrow> decode_fields kvs sj err
            | _ \<Rightarrow> decode_fields kvs sj True)
      else decode_fields kvs sj err)"

definition zero_subnetJSON :: subnetJSON where
  "zero_subnetJSON = \<lparr>SubnetIP = [], GwIP = [], Vni = 0\<rparr>"

fun decode_legacy :: "json list \<Rightarrow> subnetJSON option list \<times> bool" where
  "decode_legacy [] = ([], False)"
| "decode_legacy (x # xs) =
     (case decode_legacy xs of (r, err) \<Rightarrow>
        (case x of
           JNull \<Rightarrow> (None # r, err)
         | JObj kvs \<Rightarrow>
             (case decode_fields kvs zero_subnetJSON False of
                (sj, err') \<Rightarrow> (Some sj # r, err \<or> err'))
         | _ \<Rightarrow> (Some zero_subnetJSON # r, True)))"

text \<open>\<^verbatim>\<open>json.Unmarshal(value, &netJSON)\<close> into a \<^verbatim>\<open>[]*subnetJSON\<close>.\<close>

definition legacy_Unmarshal :: "json \<Rightarrow> error + subnetJSON option list" where
  "legacy_Unmarshal j =
     (case j of
        JArr xs \<Rightarrow> (case decode_legacy xs of (r, err) \<Rightarrow> if err then Inl ErrUnmarshalType else Inr r)
      | JNull \<Rightarrow> Inr []
      | _ \<Rightarrow> Inl ErrUnmarshalType)"

text \<open>The loop of \<^verbatim>\<open>SetValue\<close> over the legacy records; a nil record is dereferenced.\<close>

fun legacy_subnets :: "lib \<Rightarrow> subnetJSON option list \<Rightarrow> panic + subnet option list" where
  "legacy_subnets L [] = Inr []"
| "legacy_subnets L (None # r) = Inl NilDereference"
| "legacy_subnets L (Some nj # r) =
     (case legacy_subnets L r of
        Inl k \<Rightarrow> Inl k
      | Inr ss \<Rightarrow>
          Inr (Some (zero_subnet\<lparr>vni := Vni nj, gwIP := ptr (ParseCIDR L (GwIP nj)),
                                  subnetIP := ptr (ParseCIDR L (SubnetIP nj))\<rparr>) # ss))"

subsection \<open>SetValue\<close>

definition setVxlanID :: "network \<Rightarrow> nat \<Rightarrow> 32 word \<Rightarrow> network" where
  "setVxlanID n i v = n\<lparr>subnets := (subnets n)[i := (subnets n ! i)\<lparr>vni := v\<rparr>]\<rparr>"

text \<open>
  The second loop of \<^verbatim>\<open>SetValue\<close>: a new network gets a fresh subnet per decoded subnet,
  an old one gets the \<^verbatim>\<open>vni\<close> copied onto the subnet that matches. A nil decoded subnet
  is dereferenced.
\<close>

fun merge_subnets :: "bool \<Rightarrow> subnet option list \<Rightarrow> network \<Rightarrow> (panic + unit) \<times> network" where
  "merge_subnets newNet [] n = (Inr (), n)"
| "merge_subnets newNet (None # ss) n = (Inl NilDereference, n)"
| "merge_subnets newNet (Some s # ss) n =
     (if newNet
      then merge_subnets newNet ss
             (n\<lparr>subnets := subnets n @
                  [\<lparr>s_once = Fresh, vxlanName = [], brName = [], vni = vni s,
                    s_initErr = None, subnetIP = subnetIP s, gwIP = gwIP s\<rparr>]\<rparr>)
      else (case getMatchingSubnet n (subnetIP s) of
              Inl k \<Rightarrow> (Inl k, n)
            | Inr None \<Rightarrow> merge_subnets newNet ss n
            | Inr (Some i) \<Rightarrow> merge_subnets newNet ss (setVxlanID n i (vni s))))"

definition apply_config ::
  "bool \<Rightarrow> subnet option list \<Rightarrow> bool \<Rightarrow> network \<Rightarrow> (panic + error option) \<times> network" where
  "apply_config newNet ss dgw n =
     (let n1 = (if newNet then n\<lparr>subnets := [], disableDefaultGW := False\<rparr> else n) in
      case merge_subnets newNet ss (n1\<lparr>disableDefaultGW := dgw\<rparr>) of
        (Inl k, n') \<Rightarrow> (Inl k, n')
      | (Inr u, n') \<Rightarrow> (Inr None, n'))"

text \<open>
  \<^verbatim>\<open>SetValue\<close>. The JSON text \<^verbatim>\<open>null\<close> leaves \<^verbatim>\<open>nc\<close> nil without an error, and
  \<^verbatim>\<open>nc.disableDefaultGW\<close> then dereferences it.
\<close>

definition SetValue :: "lib \<Rightarrow> network \<Rightarrow> json option \<Rightarrow> (panic + error option) \<times> network" where
  "SetValue L n v =
     (let newNet = (subnets n = []) in
      case v of
        None \<Rightarrow> (Inr (Some ErrSyntax), n)
      | Some JNull \<Rightarrow>
          (Inl NilDereference,
           if newNet then n\<lparr>subnets := [], disableDefaultGW := False\<rparr> else n)
      | Some j \<Rightarrow>
          (case nc_UnmarshalJSON L j of
             Inl k \<Rightarrow> (Inl k, n)
           | Inr (None, ss, dgw) \<Rightarrow> apply_config newNet ss dgw n
           | Inr (Some e, ss, dgw) \<Rightarrow>
               (case legacy_Unmarshal j of
                  Inl err \<Rightarrow> (Inr (Some err), n)
                | Inr njs \<Rightarrow>
                    (case legacy_subnets L njs of
                       Inl k \<Rightarrow> (Inl k, n)
                     | Inr ss' \<Rightarrow> apply_config newNet ss' False n))))"

subsection \<open>obtainVxlanID\<close>

text \<open>
  Modelled from the spec: \<^verbatim>\<open>GetObject\<close> of the datastore, which is not among the sources.
  The store answers with an error or with the stored bytes and their index; the object
  decodes the bytes with \<^verbatim>\<open>SetValue\<close> and, when that returns no error, takes the index.
\<close>

definition GetObject ::
  "lib \<Rightarrow> network \<Rightarrow> error + (json option \<times> 64 word) \<Rightarrow>
   (panic + error option) \<times> network \<times> effect list" where
  "GetObject L n get =
     (case get of
        Inl e \<Rightarrow> (Inr (Some e), n, [])
      | Inr (v, index) \<Rightarrow>
          (case SetValue L n v of
             (Inl k, n') \<Rightarrow> (Inl k, n', [StoreGet (nid n)])
           | (Inr (Some e), n') \<Rightarrow> (Inr (Some e), n', [StoreGet (nid n)])
           | (Inr None, n') \<Rightarrow> (Inr None, SetIndex n' index, [StoreGet (nid n)])))"

text \<open>
  One round of the loop meets two answers of the store: to the read and to the write.
  \<open>obtain_loop\<close> runs the loop over the answers of the rounds to come and is \<open>None\<close>
  when every one of them was used up by a round that ended in \<^verbatim>\<open>ErrKeyModified\<close>: the
  loop itself has no bound. The subnet \<^verbatim>\<open>s\<close> is the \<open>i\<close>-th subnet of the network.
\<close>

record round =
  get_res :: "error + (json option \<times> 64 word)"
  write_res :: "error + 64 word"

type_synonym obtained = "(panic + error option) \<times> driver \<times> network \<times> effect list"

definition add_fx :: "effect list \<Rightarrow> obtained option \<Rightarrow> obtained option" where
  "add_fx fx r = map_option (\<lambda>(e, d, n, fx'). (e, d, n, fx @ fx')) r"

fun obtain_loop :: "lib \<Rightarrow> round list \<Rightarrow> driver \<Rightarrow> network \<Rightarrow> nat \<Rightarrow> obtained option" where
  "obtain_loop L [] d n i = None"
| "obtain_loop L (e # es) d n i =
     (case GetObject L n (get_res e) of
        (Inl k, n1, fx0) \<Rightarrow> Some (Inl k, d, n1, fx0)
      | (Inr (Some err), n1, fx0) \<Rightarrow> Some (Inr (Some (ErrGetNetwork (nid n) err)), d, n1, fx0)
      | (Inr None, n1, fx0) \<Rightarrow>
          if vni (subnets n1 ! i) = 0
          then (case GetID (vxlanIdm d) of
                  (Inl err, a) \<Rightarrow> Some (Inr (Some (ErrAllocate err)), d, n1, fx0)
                | (Inr vxlanID, a) \<Rightarrow>
                    (let d1 = d\<lparr>vxlanIdm := a\<rparr>;
                         n2 = setVxlanID n1 i (of_nat vxlanID)
                     in case writeToStore d1 n2 (write_res e) of
                          (Inl k, n3, fx) \<Rightarrow> Some (Inl k, d1, n3, fx0 @ fx)
                        | (Inr (Some err), n3, fx) \<Rightarrow>
                            (let d2 = d1\<lparr>vxlanIdm :=
                                        Release (vxlanIdm d1) (unat (vni (subnets n3 ! i)))\<rparr>;
                                 n4 = setVxlanID n3 i 0
                             in if err = ErrKeyModified
                                then add_fx (fx0 @ fx) (obtain_loop L es d2 n4 i)
                                else Some (Inr (Some (ErrUpdateNetwork (nid n) err)), d2, n4,
                                           fx0 @ fx))
                        | (Inr None, n3, fx) \<Rightarrow> Some (Inr None, d1, n3, fx0 @ fx)))
          else Some (Inr None, d, n1, fx0))"

definition obtainVxlanID :: "lib \<Rightarrow> round list \<Rightarrow> driver \<Rightarrow> network \<Rightarrow> nat \<Rightarrow> obtained option" where
  "obtainVxlanID L es d n i =
     (if vni (subnets n ! i) \<noteq> 0 then Some (Inr None, d, n, [])
      else if store d = None then Some (Inr (Some ErrNoDatastoreObtain), d, n, [])
      else obtain_loop L es d n i)"

subsection \<open>Well-formed configurations\<close>

text \<open>
  A CIDR of a configuration is well formed when it is not nil and the library prints it
  to a text that \<^verbatim>\<open>ParseCIDR\<close> reads back to the same value. \<open>fresh_copy\<close> is the
  subnet \<^verbatim>\<open>SetValue\<close> builds for a new network; \<open>decoded\<close> is what a decoder fills in.
\<close>

definition cidr_ok :: "lib \<Rightarrow> IPNet option \<Rightarrow> bool" where
  "cidr_ok L p =
     (case p of
        None \<Rightarrow> False
      | Some x \<Rightarrow> (case IPNet_String L p of Inl k \<Rightarrow> False | Inr t \<Rightarrow> ParseCIDR L t = Inr x))"

definition well_formed :: "lib \<Rightarrow> subnet list \<Rightarrow> bool" where
  "well_formed L ss = list_all (\<lambda>s. cidr_ok L (subnetIP s) \<and> cidr_ok L (gwIP s)) ss"

definition fresh_copy :: "subnet \<Rightarrow> subnet" where
  "fresh_copy s = \<lparr>s_once = Fresh, vxlanName = [], brName = [], vni = vni s, s_initErr = None,
     subnetIP = subnetIP s, gwIP = gwIP s\<rparr>"

definition decoded :: "subnet \<Rightarrow> subnet" where
  "decoded s = zero_subnet\<lparr>vni := vni s, gwIP := gwIP s, subnetIP := subnetIP s\<rparr>"


subsection \<open>Sequences of joins and leaves\<close>

text \<open>
  An endpoint joining calls \<^verbatim>\<open>joinSandbox\<close> and, when that returns no error,
  \<^verbatim>\<open>incEndpointCount\<close>; an endpoint leaving calls \<^verbatim>\<open>leaveSandbox\<close>. \<open>trace\<close> lists the
  states a sequence of such actions goes through, from the first state to the last; a
  panic ends it. \<open>disciplined\<close> says that no endpoint leaves while \<^verbatim>\<open>joinCnt\<close> is 0.
\<close>

datatype action = Join init_env | Leave

definition do_action ::
  "action \<Rightarrow> globals \<times> network \<Rightarrow> (panic + unit) \<times> (globals \<times> network)" where
  "do_action a s =
     (case a of
        Join e \<Rightarrow>
          (case joinSandbox e (fst s) (snd s) of
             (Inl k, g', n', fx) \<Rightarrow> (Inl k, (g', n'))
           | (Inr (Some err), g', n', fx) \<Rightarrow> (Inr (), (g', n'))
           | (Inr None, g', n', fx) \<Rightarrow> (Inr (), (g', incEndpointCount n')))
      | Leave \<Rightarrow>
          (case leaveSandbox (fst s) (snd s) of (r, n', fx) \<Rightarrow> (r, (fst s, n'))))"

fun trace :: "action list \<Rightarrow> globals \<times> network \<Rightarrow> (globals \<times> network) list" where
  "trace [] s = [s]"
| "trace (a # as) s =
     s # (case do_action a s of (Inl k, s') \<Rightarrow> [s'] | (Inr u, s') \<Rightarrow> trace as s')"

fun disciplined :: "action list \<Rightarrow> globals \<times> network \<Rightarrow> bool" where
  "disciplined [] s = True"
| "disciplined (a # as) s =
     ((a \<noteq> Leave \<or> joinCnt (snd s) \<noteq> 0) \<and>
      (case do_action a s of (Inl k, s') \<Rightarrow> True | (Inr u, s') \<Rightarrow> disciplined as s'))"

text \<open>The invariant of the data model: \<^verbatim>\<open>joinCnt >= 0\<close>, and a sandbox iff \<^verbatim>\<open>joinCnt > 0\<close>.\<close>

definition joinCnt_inv :: "globals \<times> network \<Rightarrow> bool" where
  "joinCnt_inv s =
     (0 \<le> sint (joinCnt (snd s)) \<and>
      ((sbox (snd s) \<noteq> None) = (0 < sint (joinCnt (snd s)))))"

text \<open>
  The invariant the proof carries: \<open>k\<close> bounds the count, a count of 0 goes with no
  sandbox and a guard that is fresh or holds an error, a positive count with a sandbox
  and a guard that holds success, made after the probe ran.
\<close>

definition J :: "nat \<Rightarrow> globals \<times> network \<Rightarrow> bool" where
  "J k s = (case s of (g, n) \<Rightarrow>
     unat (joinCnt n) \<le> k \<and>
     (joinCnt n = 0 \<longrightarrow> sbox n = None \<and> (n_once n = Fresh \<or> n_initErr n \<noteq> None)) \<and>
     (joinCnt n \<noteq> 0 \<longrightarrow> sbox n \<noteq> None \<and> n_once n = Done \<and> n_initErr n = None \<and>
         hostModeOnce g = Done \<and> (hostMode g \<longrightarrow> 12 \<le> length (nid n))))"

subsection \<open>Example values\<close>

text \<open>Example values: 10.0.1.0/24 with gateway 10.0.1.1/24, on a network named n1.\<close>

definition net_10_0_1_0 :: IPNet where
  "net_10_0_1_0 = \<lparr>IP = [10, 0, 1, 0], Mask = [255, 255, 255, 0]\<rparr>"

definition gw_10_0_1_1 :: IPNet where
  "gw_10_0_1_1 = \<lparr>IP = [10, 0, 1, 1], Mask = [255, 255, 255, 0]\<rparr>"

definition subnet0 :: subnet where
  "subnet0 = \<lparr>s_once = Fresh, vxlanName = [], brName = [], vni = 0, s_initErr = None,
     subnetIP = Some net_10_0_1_0, gwIP = Some gw_10_0_1_1\<rparr>"

definition network0 :: network where
  "network0 = \<lparr>nid = ''n1'', dbIndex = 0, dbExists = False, sbox = None, joinCnt = 0,
     n_once = Fresh, initEpoch = 0, n_initErr = None, subnets = [subnet0],
     disableDefaultGW = False\<rparr>"

definition globals0 :: globals where
  "globals0 = \<lparr>hostMode = False, hostModeOnce = Fresh\<rparr>"

definition probe_ok :: probe where
  "probe_ok = \<lparr>env_OVERLAY_HOST_MODE = [], createVxlan_err = None, openFile_err = None,
     linkByName_err = None, linkSetNsFd_err = None\<rparr>"

definition env_ok :: init_env where
  "env_ok = \<lparr>ie_probe = probe_ok, addNetworkChain_err = None, newSandbox_err = None\<rparr>"

text \<open>A peer database that knows 10.0.0.2 on n1, and an L3 miss for that address.\<close>

definition peerdb0 :: resolver where
  "peerdb0 i ip =
     (if i = ''n1'' \<and> ip = [10, 0, 0, 2]
      then Inr ([2, 66, 10, 0, 0, 2], [255, 255, 255, 0], [192, 168, 1, 7])
      else Inl (ErrExternal ''no such peer''))"

definition miss0 :: nlmsg where
  "miss0 = \<lparr>msg_type = RTM_GETNEIGH,
     msg_neigh = Inr \<lparr>neigh_IP = [10, 0, 0, 2], neigh_State = NUD_STALE\<rparr>\<rparr>"

text \<open>A driver with a datastore whose allocator (256..1000) has id 256 live.\<close>

definition idm1 :: idm where
  "idm1 = \<lparr>idm_start = 256, idm_end = 1000, idm_live = {256}\<rparr>"

definition driver1 :: driver where
  "driver1 = \<lparr>networks = Map.empty, store = Some DataStore, vxlanIdm = idm1\<rparr>"

definition network1 :: network where
  "network1 = network0\<lparr>subnets := [subnet0\<lparr>vni := 256\<rparr>]\<rparr>"

definition labels0 :: netlabel where
  "labels0 = \<lparr>GenericData = ''com.docker.network.generic'',
     DisableDefaultGW = ''com.docker.network.disable_default_gateway''\<rparr>"

definition pool0 :: IPAMData where
  "pool0 = \<lparr>Pool = Some net_10_0_1_0, Gateway = Some gw_10_0_1_1\<rparr>"

text \<open>
  A stand-in for the library that prints and parses the two example CIDRs and nothing
  else.
\<close>

definition lib0 :: lib where
  "lib0 = \<lparr>ParseCIDR = (\<lambda>t. if t = ''10.0.1.0/24'' then Inr net_10_0_1_0
                           else if t = ''10.0.1.1/24'' then Inr gw_10_0_1_1
                           else Inl (ErrExternal ''invalid CIDR address'')),
            IPNet_String = (\<lambda>p. case p of
                                   None \<Rightarrow> Inl NilDereference
                                 | Some x \<Rightarrow> if x = net_10_0_1_0 then Inr ''10.0.1.0/24''
                                             else if x = gw_10_0_1_1 then Inr ''10.0.1.1/24''
                                             else Inr ''<nil>''),
            float64_to_uint32 = word_of_int\<rparr>"

text \<open>
  A driver whose allocator has the short range 256..259, a stored value whose subnet has
  no id yet, and two rounds of \<^verbatim>\<open>obtainVxlanID\<close>: one whose write meets
  \<^verbatim>\<open>ErrKeyModified\<close>, one whose write succeeds.
\<close>

definition idm2 :: idm where
  "idm2 = \<lparr>idm_start = 256, idm_end = 259, idm_live = {256}\<rparr>"

definition driver2 :: driver where
  "driver2 = \<lparr>networks = Map.empty, store = Some DataStore, vxlanIdm = idm2\<rparr>"

definition stored0 :: json where
  "stored0 = JObj [(''disableDefaultGW'', JBool False),
                   (''subnets'', JArr [JObj [(''gwIP'', JStr ''10.0.1.1/24''),
                                             (''subnetIP'', JStr ''10.0.1.0/24''),
                                             (''vni'', JNum 0)]])]"

definition round_modified :: round where
  "round_modified = \<lparr>get_res = Inr (Some stored0, 3), write_res = Inl ErrKeyModified\<rparr>"

definition round_written :: round where
  "round_written = \<lparr>get_res = Inr (Some stored0, 4), write_res = Inr 5\<rparr>"

section \<open>Subnet lookup with a nil address\<close>

lemma getMatchingSubnet_nil: "getMatchingSubnet n None = Inr None"
  by (simp add: getMatchingSubnet_def)

lemma getSubnetforIP_nil_no_subnets: "subnets n = [] \<Longrightarrow> getSubnetforIP n None = Inr None"
  by (simp add: getSubnetforIP_def)

lemma getSubnetforIP_nil_some_subnet:
  "subnets n \<noteq> [] \<Longrightarrow> getSubnetforIP n None = Inl NilDereference"
  by (cases "subnets n") (simp_all add: getSubnetforIP_def split: option.splits)

text \<open>
  C7. \<^verbatim>\<open>getMatchingSubnet\<close> guards against a nil \<^verbatim>\<open>ip\<close>; \<^verbatim>\<open>getSubnetforIP\<close> has no such
  guard. On the network \<open>network0\<close>, which has one subnet, \<^verbatim>\<open>getSubnetforIP(nil)\<close> does
  not return "not found": it dereferences the nil pointer and panics, while
  \<^verbatim>\<open>getMatchingSubnet(nil)\<close> on the same network returns nil.
\<close>

theorem getSubnetforIP_nil_panics:
  "getSubnetforIP network0 None = Inl NilDereference \<and>
   getMatchingSubnet network0 None = Inr None"
  by (simp add: getSubnetforIP_def getMatchingSubnet_def network0_def subnet0_def)

section \<open>The host-mode probe\<close>

text \<open>
  C6 (amended). After the probe \<^verbatim>\<open>hostMode\<close> is true exactly when it was true before, or
  the environment variable \<^verbatim>\<open>_OVERLAY_HOST_MODE\<close> is non-empty, or creating the probe
  device, opening the namespace file and looking the device up all succeed and moving it
  into the namespace fails. A failure to create the device, to open the file or to look
  the device up leaves \<^verbatim>\<open>hostMode\<close> as it was.
\<close>

theorem setHostMode_hostMode:
  "hostMode (fst (setHostMode p g)) =
     (hostMode g \<or>
      (createVxlan_err p = None \<and> openFile_err p = None \<and> linkByName_err p = None \<and>
       linkSetNsFd_err p \<noteq> None) \<or>
      env_OVERLAY_HOST_MODE p \<noteq> [])"
  by (auto simp: setHostMode_def split: option.splits)

theorem setHostMode_hostMode_witness:
  "hostMode (fst (setHostMode (probe_ok\<lparr>linkSetNsFd_err := Some (ErrExternal ''EPERM'')\<rparr>)
     globals0)) \<and>
   \<not> hostMode (fst (setHostMode probe_ok globals0))"
  using setHostMode_hostMode [of "probe_ok\<lparr>linkSetNsFd_err := Some (ErrExternal ''EPERM'')\<rparr>" globals0]
    setHostMode_hostMode [of probe_ok globals0]
  by (simp add: probe_ok_def globals0_def)

text \<open>
  The claim as stated fails: when creating the probe device fails, or when opening
  \<^verbatim>\<open>/proc/self/ns/net\<close> fails, the probe returns with \<^verbatim>\<open>hostMode\<close> still false.
\<close>

theorem setHostMode_create_failure_counterexample:
  "\<not> hostMode (fst (setHostMode
       (probe_ok\<lparr>createVxlan_err := Some (ErrExternal ''operation not supported'')\<rparr>) globals0)) \<and>
   \<not> hostMode (fst (setHostMode
       (probe_ok\<lparr>openFile_err := Some (ErrExternal ''permission denied'')\<rparr>) globals0))"
  by (simp add: setHostMode_def probe_ok_def globals0_def)

lemma setHostMode_deletes_probe:
  "env_OVERLAY_HOST_MODE p = [] \<Longrightarrow> createVxlan_err p = None \<Longrightarrow>
   last (snd (setHostMode p g)) = DeleteVxlan ''testvxlan''"
  by (auto simp: setHostMode_def split: option.splits)

section \<open>The neighbor-miss watcher\<close>

lemma To16_valid: "length ip = 4 \<or> length ip = 16 \<Longrightarrow> To16 ip \<noteq> None"
  by (auto simp: To16_def)

lemma watchMiss_msg_skips_valid_IP:
  "msg_neigh msg = Inr nb \<Longrightarrow> length (neigh_IP nb) = 4 \<or> length (neigh_IP nb) = 16 \<Longrightarrow>
   watchMiss_msg resolvePeer i msg = []"
  using To16_valid [of "neigh_IP nb"] by (auto simp: watchMiss_msg_def)

text \<open>
  C5. The address filter is \<^verbatim>\<open>neigh.IP.To16() != nil\<close>, which holds for every 4-byte
  and every 16-byte address. The miss \<open>miss0\<close> carries the IPv4 address 10.0.0.2 in
  state STALE and the peer database resolves that address, yet the watcher skips the
  message: no \<^verbatim>\<open>peerAdd\<close> is made.
\<close>

theorem watchMiss_skips_IPv4:
  "watchMiss peerdb0 ''n1'' [Inr [miss0]] = [] \<and>
   peerdb0 ''n1'' [10, 0, 0, 2] =
     Inr ([2, 66, 10, 0, 0, 2], [255, 255, 255, 0], [192, 168, 1, 7]) \<and>
   neigh_State (projr (msg_neigh miss0)) AND (NUD_STALE OR NUD_INCOMPLETE) \<noteq> 0"
  by (simp add: watchMiss_def watchMiss_msg_def miss0_def peerdb0_def To16_def
      RTM_GETNEIGH_def RTM_NEWNEIGH_def NUD_STALE_def NUD_INCOMPLETE_def)

section \<open>Teardown without a sandbox\<close>

text \<open>
  C10. When the network's \<^verbatim>\<open>sbox\<close> is nil, \<^verbatim>\<open>destroySandbox\<close> returns without a panic,
  leaves the network (all its fields, and so all its subnets) as it was and has no
  effect outside it: no interface removed, no vxlan device deleted, no filter or chain
  removed.
\<close>

theorem destroySandbox_nil_noop:
  "sbox n = None \<Longrightarrow> destroySandbox g n = (Inr (), n, [])"
  by (simp add: destroySandbox_def)

theorem destroySandbox_nil_noop_witness:
  "sbox network0 = None \<and> destroySandbox globals0 network0 = (Inr (), network0, [])"
  using destroySandbox_nil_noop [of network0 globals0] by (simp add: network0_def)

section \<open>The join count and the sandbox\<close>

lemma sint_small: "unat (c :: 64 word) < 2 ^ 63 \<Longrightarrow> sint c = int (unat c)"
proof -
  assume a: "unat c < 2 ^ 63"
  have "int (unat c) < int (2 ^ 63)" using a by (simp only: of_nat_less_iff)
  then have "uint c < 2 ^ 63" by simp
  moreover have "0 \<le> uint c" by simp
  moreover have "- (2 ^ 63) \<le> uint c"
    by (rule order_trans [of _ 0]) simp_all
  ultimately have "signed_take_bit 63 (uint c) = uint c"
    by (intro signed_take_bit_int_eq_self) simp_all
  then show ?thesis by (simp add: sint_uint)
qed

lemma J_inv: "J k s \<Longrightarrow> k < 2 ^ 63 \<Longrightarrow> joinCnt_inv s"
  apply (cases s)
  apply (auto simp: J_def joinCnt_inv_def sint_small unat_gt_0 unat_eq_0 uint_0_iff dest: le_less_trans)
  using uint_0_iff uint_nonnegative apply (metis order_le_less) 
  using uint_0_iff uint_nonnegative apply (metis order_le_less) 
  done

lemma hostModeOnce_Do_Done: "hostModeOnce (fst (hostModeOnce_Do p g)) = Done"
  by (cases "hostModeOnce g") (auto simp: hostModeOnce_Do_def split: prod.splits)

lemma inc_unat:
  assumes "unat (c :: 64 word) \<le> k" "Suc k < 2 ^ 63"
  shows "unat (c + 1) = Suc (unat c)" and "c + 1 \<noteq> 0"
proof -
  have "unat (c + 1) = (unat c + 1) mod 2 ^ 64" by (simp add: unat_word_ariths)
  moreover have "unat c + 1 < 2 ^ 64" using assms by simp
  ultimately show u: "unat (c + 1) = Suc (unat c)" by simp
  show "c + 1 \<noteq> 0"
  proof
    assume "c + 1 = 0"
    then have "unat (c + 1) = 0" by simp
    with u show False by simp
  qed
qed

lemma initSandbox_cases:
  "initSandbox e g n = (r, g', n', fx) \<Longrightarrow>
     joinCnt n' = joinCnt n \<and> n_once n' = n_once n \<and> n_initErr n' = n_initErr n \<and> nid n' = nid n \<and> hostModeOnce g' = Done \<and>
     (case r of Inl k \<Rightarrow> sbox n' = sbox n
      | Inr (Some err) \<Rightarrow> sbox n' = sbox n
      | Inr None \<Rightarrow> sbox n' \<noteq> None \<and> (hostMode g' \<longrightarrow> 12 \<le> length (nid n)))"
  using hostModeOnce_Do_Done [of "ie_probe e" g]
  by (auto simp: initSandbox_def Let_def split: prod.splits option.splits if_splits)


lemma J_mono: "J k s \<Longrightarrow> k \<le> k' \<Longrightarrow> J k' s"
  by (cases s) (auto simp: J_def)

lemma step_Join:
  assumes J: "J k (g, n)" and k: "Suc k < 2 ^ 63" and d: "do_action (Join e) (g, n) = (r, s')"
  shows "(r = Inr () \<longrightarrow> J (Suc k) s') \<and> joinCnt_inv s'"
proof (cases "n_once n")
  case Done
  show ?thesis
  proof (cases "n_initErr n")
    case None
    with Done J have c: "joinCnt n \<noteq> 0" by (auto simp: J_def)
    from Done None d have s': "s' = (g, incEndpointCount n)" and r: "r = Inr ()"
      by (auto simp: do_action_def joinSandbox_def)
    from J have "unat (joinCnt n) \<le> k" by (simp add: J_def)
    from inc_unat [OF this k] J c have "J (Suc k) s'"
      by (simp add: s' J_def incEndpointCount_def)
    then show ?thesis using J_inv k by blast
  next
    case (Some err)
    with Done d have "s' = (g, n)" and "r = Inr ()"
      by (auto simp: do_action_def joinSandbox_def)
    then show ?thesis using J J_mono [of k "(g, n)" "Suc k"] J_inv k by auto
  qed
next
  case Fresh
  with J have c: "joinCnt n = 0" and sb: "sbox n = None" by (auto simp: J_def)
  obtain ri g1 n1 fx where i: "initSandbox e g n = (ri, g1, n1, fx)"
    by (cases "initSandbox e g n") auto
  note ic = initSandbox_cases [OF i]
  show ?thesis
  proof (cases ri)
    case (Inl p)
    with Fresh i d have "s' = (g1, n1\<lparr>n_once := Done\<rparr>)" and "r = Inl p"
      by (auto simp: do_action_def joinSandbox_def)
    then show ?thesis using ic Inl c sb by (simp add: joinCnt_inv_def)
  next
    case (Inr eo)
    show ?thesis
    proof (cases eo)
      case None
      with Inr Fresh i d have s': "s' = (g1, incEndpointCount (n1\<lparr>n_once := Done, n_initErr := None\<rparr>))"
        by (auto simp: do_action_def joinSandbox_def)
      have "unat (joinCnt n1) \<le> k" using ic c by simp
      from inc_unat [OF this k] ic Inr None c have "J (Suc k) s'"
        by (simp add: s' J_def incEndpointCount_def)
      then show ?thesis using J_inv k by blast
    next
      case (Some err)
      with Inr Fresh i d have s': "s' = (g1, n1\<lparr>n_once := Done, n_initErr := Some err\<rparr>)"
        by (auto simp: do_action_def joinSandbox_def)
      have "J (Suc k) s'" using ic Inr Some c sb by (simp add: s' J_def)
      then show ?thesis using J_inv k by blast
    qed
  qed
qed

lemma destroy_subnets_ok: "\<not> (hm \<and> length i < 12) \<Longrightarrow> fst (destroy_subnets hm i ss) = Inr ()"
  by (induction ss) (auto split: prod.splits)

lemma step_Leave:
  assumes J: "J k (g, n)" and c: "joinCnt n \<noteq> 0" and d: "do_action Leave (g, n) = (r, s')"
  shows "r = Inr () \<and> J k s'"
proof (cases "joinCnt n - 1 = 0")
  case False
  with d have s': "s' = (g, n\<lparr>joinCnt := joinCnt n - 1\<rparr>)" and r: "r = Inr ()"
    by (auto simp: do_action_def leaveSandbox_def Let_def)
  have "unat (joinCnt n) \<le> k" using J by (simp add: J_def)
  then have "unat (joinCnt n - 1) \<le> k" using c by (simp add: unat_minus_one)
  then show ?thesis using J c False r by (simp add: s' J_def)
next
  case True
  from J c obtain sb where sb: "sbox n = Some sb" and hm: "\<not> (hostMode g \<and> length (nid n) < 12)"
    by (auto simp: J_def)
  from destroy_subnets_ok [OF hm] obtain fx1 where
    ds: "destroy_subnets (hostMode g) (nid n) (map (\<lambda>s. s\<lparr>s_once := Fresh\<rparr>) (subnets n)) = (Inr (), fx1)"
    by (metis prod.collapse)
  from True d sb hm ds have "r = Inr ()" and "J k s'"
    by (auto simp: do_action_def leaveSandbox_def Let_def destroySandbox_def J_def)
  then show ?thesis by simp
qed

lemma trace_inv:
  "J k s \<Longrightarrow> k + length as < 2 ^ 63 \<Longrightarrow> disciplined as s \<Longrightarrow> list_all joinCnt_inv (trace as s)"
proof (induction as arbitrary: k s)
  case Nil
  then show ?case using J_inv by simp
next
  case (Cons a as)
  obtain g n where s: "s = (g, n)" by (cases s)
  obtain r s' where d: "do_action a s = (r, s')" by (cases "do_action a s")
  have k: "Suc k < 2 ^ 63" and k': "k < 2 ^ 63" using Cons.prems(2) by simp_all
  have inv_s: "joinCnt_inv s" using Cons.prems(1) k' by (rule J_inv)
  have step: "(r = Inr () \<longrightarrow> J (Suc k) s') \<and> joinCnt_inv s'"
  proof (cases a)
    case (Join e)
    then show ?thesis using step_Join [of k g n e r s'] Cons.prems(1) k d s by simp
  next
    case Leave
    with Cons.prems(3) s have "joinCnt n \<noteq> 0" by simp
    from step_Leave [OF _ this, of k g r s'] Cons.prems(1) d s Leave
    have "r = Inr ()" and "J k s'" by simp_all
    then show ?thesis using J_mono [of k s' "Suc k"] J_inv [of "Suc k" s'] k by simp
  qed
  show ?case
  proof (cases r)
    case (Inl p)
    then show ?thesis using d inv_s step by simp
  next
    case (Inr u)
    with step have "J (Suc k) s'" by simp
    moreover have "Suc k + length as < 2 ^ 63" using Cons.prems(2) by simp
    moreover have "disciplined as s'" using Cons.prems(3) d Inr by simp
    ultimately have "list_all joinCnt_inv (trace as s')" by (rule Cons.IH)
    then show ?thesis using d Inr inv_s by simp
  qed
qed

text \<open>
  C3 (amended). Starting from a network with \<^verbatim>\<open>joinCnt = 0\<close>, no sandbox and a fresh
  guard, the invariant (\<^verbatim>\<open>joinCnt >= 0\<close>, and a sandbox iff \<^verbatim>\<open>joinCnt > 0\<close>) holds in
  every state between the actions of a sequence of fewer than \<open>2^63\<close> joins and leaves
  in which no endpoint leaves while \<^verbatim>\<open>joinCnt\<close> is 0. A join is \<^verbatim>\<open>joinSandbox\<close>
  followed, when it returns no error, by \<^verbatim>\<open>incEndpointCount\<close>; a leave is
  \<^verbatim>\<open>leaveSandbox\<close>.
\<close>

theorem joinCnt_inv_preserved:
  assumes "joinCnt n = 0" "sbox n = None" "n_once n = Fresh"
    and "length as < 2 ^ 63" and "disciplined as (g, n)"
  shows "list_all joinCnt_inv (trace as (g, n))"
proof -
  have "J 0 (g, n)" using assms(1-3) by (simp add: J_def)
  then show ?thesis using assms(4,5) trace_inv [of 0 "(g, n)" as] by simp
qed

theorem joinCnt_inv_preserved_witness:
  "joinCnt network0 = 0 \<and> sbox network0 = None \<and> n_once network0 = Fresh \<and>
   length [Join env_ok, Join env_ok, Leave, Leave] < 2 ^ 63 \<and>
   disciplined [Join env_ok, Join env_ok, Leave, Leave] (globals0, network0) \<and>
   list_all joinCnt_inv (trace [Join env_ok, Join env_ok, Leave, Leave] (globals0, network0))"
proof -
  have d: "disciplined [Join env_ok, Join env_ok, Leave, Leave] (globals0, network0)"
    by (simp add: do_action_def joinSandbox_def initSandbox_def hostModeOnce_Do_def
        setHostMode_def incEndpointCount_def leaveSandbox_def destroySandbox_def
        network0_def globals0_def env_ok_def probe_ok_def subnet0_def Let_def)
  have f: "joinCnt network0 = 0 \<and> sbox network0 = None \<and> n_once network0 = Fresh"
    by (simp add: network0_def)
  show ?thesis
    using joinCnt_inv_preserved [of network0 "[Join env_ok, Join env_ok, Leave, Leave]" globals0]
      d f by simp
qed

text \<open>
  The claim as stated fails for single steps: \<^verbatim>\<open>leaveSandbox\<close> on a network that nobody
  joined makes \<^verbatim>\<open>joinCnt\<close> -1, and \<^verbatim>\<open>incEndpointCount\<close> alone makes it 1 while the
  sandbox is still nil.
\<close>

theorem joinCnt_inv_counterexample:
  "sint (joinCnt (fst (snd (leaveSandbox globals0 network0)))) = -1 \<and>
   \<not> joinCnt_inv (globals0, fst (snd (leaveSandbox globals0 network0))) \<and>
   \<not> joinCnt_inv (globals0, incEndpointCount network0)"
  by (simp add: leaveSandbox_def incEndpointCount_def joinCnt_inv_def network0_def Let_def)

section \<open>CreateNetwork\<close>

lemma foldl_subnets:
  "foldl (\<lambda>n ipd. n\<lparr>subnets := subnets n @ [new_subnet ipd]\<rparr>) n0 v4 =
     n0\<lparr>subnets := subnets n0 @ map new_subnet v4\<rparr>"
  by (induction v4 arbitrary: n0) simp_all

lemma parseNetworkOptions_frame:
  "nid (parseNetworkOptions L n opt) = nid n \<and> subnets (parseNetworkOptions L n opt) = subnets n"
  by (simp add: parseNetworkOptions_def split: option.splits optval.splits)

lemma new_subnet_maps:
  "map subnetIP (map new_subnet v4) = map Pool v4"
  "map gwIP (map new_subnet v4) = map Gateway v4"
  "list_all (\<lambda>s. vni s = 0) (map new_subnet v4)"
  by (simp_all add: new_subnet_def list_all_iff)

lemma CreateNetwork_put_ok:
  assumes "i \<noteq> []" "configure_err env = None" "store d \<noteq> None" "put_res env = Inr index"
  shows "CreateNetwork L env d i opt v4 v6 =
     (Inr None,
      d\<lparr>networks := (networks d)(i \<mapsto>
          SetIndex ((parseNetworkOptions L (new_network i) opt)\<lparr>subnets := map new_subnet v4\<rparr>)
            index)\<rparr>,
      [StorePut ((parseNetworkOptions L (new_network i) opt)\<lparr>subnets := map new_subnet v4\<rparr>)])"
  using assms parseNetworkOptions_frame [of L "new_network i" opt]
  by (auto simp: CreateNetwork_def Let_def foldl_subnets writeToStore_def addNetwork_def
      SetIndex_def new_network_def)

lemma CreateNetwork_put_failed:
  assumes "i \<noteq> []" "configure_err env = None" "store d \<noteq> None" "put_res env = Inl e"
  shows "CreateNetwork L env d i opt v4 v6 = (Inr (Some (ErrUpdateStore i e)), d, [])"
  using assms parseNetworkOptions_frame [of L "new_network i" opt]
  by (auto simp: CreateNetwork_def Let_def foldl_subnets writeToStore_def new_network_def)

lemma CreateNetwork_registry:
  "CreateNetwork L env d i opt v4 v6 = (r, d', fx) \<Longrightarrow> r = Inr None \<or> d' = d"
  by (auto simp: CreateNetwork_def Let_def split: if_splits option.splits sum.splits prod.splits)

text \<open>
  C8. \<^verbatim>\<open>CreateNetwork\<close> with an empty id returns the invalid-id error and does nothing
  else. In every return either the call succeeded or the driver, and with it the
  registry, is as it was. With a non-empty id, a successful \<^verbatim>\<open>configure\<close> and a
  datastore: when the put fails with \<open>e\<close> the call returns the error that wraps \<open>e\<close>
  and the network is not registered; when the put succeeds the call returns nil and the
  registry maps the id to a network of that id with one subnet per entry of
  \<^verbatim>\<open>ipV4Data\<close>, in order, with \<^verbatim>\<open>subnetIP\<close> the pool, \<^verbatim>\<open>gwIP\<close> the gateway and
  \<^verbatim>\<open>vni\<close> 0.
\<close>

theorem CreateNetwork_all_or_nothing:
  assumes c: "CreateNetwork L env d i opt ipV4Data ipV6Data = (r, d', fx)"
  shows "(i = [] \<longrightarrow> r = Inr (Some ErrInvalidNetworkID) \<and> d' = d \<and> fx = []) \<and>
         (r = Inr None \<or> d' = d) \<and>
         (i \<noteq> [] \<and> configure_err env = None \<and> store d \<noteq> None \<longrightarrow>
            (\<forall>e. put_res env = Inl e \<longrightarrow>
                   r = Inr (Some (ErrUpdateStore i e)) \<and> d' = d) \<and>
            (\<forall>index. put_res env = Inr index \<longrightarrow>
                   r = Inr None \<and>
                   (\<exists>n. d' = d\<lparr>networks := (networks d)(i \<mapsto> n)\<rparr> \<and> nid n = i \<and>
                        length (subnets n) = length ipV4Data \<and>
                        map subnetIP (subnets n) = map Pool ipV4Data \<and>
                        map gwIP (subnets n) = map Gateway ipV4Data \<and>
                        list_all (\<lambda>s. vni s = 0) (subnets n))))"
proof (intro conjI impI allI)
  assume "i = []"
  with c show "r = Inr (Some ErrInvalidNetworkID)" "d' = d" "fx = []"
    by (simp_all add: CreateNetwork_def)
next
  show "r = Inr None \<or> d' = d" using c by (rule CreateNetwork_registry)
next
  fix e
  assume "i \<noteq> [] \<and> configure_err env = None \<and> store d \<noteq> None" "put_res env = Inl e"
  then have "CreateNetwork L env d i opt ipV4Data ipV6Data = (Inr (Some (ErrUpdateStore i e)), d, [])"
    by (simp add: CreateNetwork_put_failed)
  with c show "r = Inr (Some (ErrUpdateStore i e))" "d' = d" by simp_all
next
  fix index
  assume a: "i \<noteq> [] \<and> configure_err env = None \<and> store d \<noteq> None" "put_res env = Inr index"
  let ?n = "SetIndex ((parseNetworkOptions L (new_network i) opt)\<lparr>subnets := map new_subnet ipV4Data\<rparr>) index"
  from a have "CreateNetwork L env d i opt ipV4Data ipV6Data =
      (Inr None, d\<lparr>networks := (networks d)(i \<mapsto> ?n)\<rparr>,
       [StorePut ((parseNetworkOptions L (new_network i) opt)\<lparr>subnets := map new_subnet ipV4Data\<rparr>)])"
    by (simp add: CreateNetwork_put_ok)
  with c have r: "r = Inr None" and d': "d' = d\<lparr>networks := (networks d)(i \<mapsto> ?n)\<rparr>" by simp_all
  show "r = Inr None" by (rule r)
  have "nid ?n = i" using parseNetworkOptions_frame [of L "new_network i" opt]
    by (simp add: SetIndex_def new_network_def)
  moreover have "subnets ?n = map new_subnet ipV4Data" by (simp add: SetIndex_def)
  ultimately show "\<exists>n. d' = d\<lparr>networks := (networks d)(i \<mapsto> n)\<rparr> \<and> nid n = i \<and>
                        length (subnets n) = length ipV4Data \<and>
                        map subnetIP (subnets n) = map Pool ipV4Data \<and>
                        map gwIP (subnets n) = map Gateway ipV4Data \<and>
                        list_all (\<lambda>s. vni s = 0) (subnets n)"
    using d' new_subnet_maps [of ipV4Data] by (intro exI [of _ ?n]) simp
qed

theorem CreateNetwork_all_or_nothing_witness:
  "CreateNetwork labels0 \<lparr>configure_err = None, put_res = Inr 7\<rparr> driver1 ''n1'' Map.empty [pool0] [] =
     (Inr None,
      driver1\<lparr>networks := (networks driver1)(''n1'' \<mapsto> network0\<lparr>dbIndex := 7, dbExists := True\<rparr>)\<rparr>,
      [StorePut network0]) \<and>
   networks (fst (snd (CreateNetwork labels0 \<lparr>configure_err = None, put_res = Inl ErrKeyModified\<rparr>
      driver1 ''n1'' Map.empty [pool0] []))) = networks driver1"
proof -
  have 1: "CreateNetwork labels0 \<lparr>configure_err = None, put_res = Inr 7\<rparr> driver1 ''n1'' Map.empty [pool0] [] =
     (Inr None,
      driver1\<lparr>networks := (networks driver1)(''n1'' \<mapsto> network0\<lparr>dbIndex := 7, dbExists := True\<rparr>)\<rparr>,
      [StorePut network0])"
    by (simp add: CreateNetwork_def parseNetworkOptions_def new_network_def new_subnet_def
        writeToStore_def SetIndex_def addNetwork_def driver1_def network0_def subnet0_def pool0_def)
  obtain r d' fx where 2: "CreateNetwork labels0 \<lparr>configure_err = None, put_res = Inl ErrKeyModified\<rparr>
      driver1 ''n1'' Map.empty [pool0] [] = (r, d', fx)"
    by (metis prod.collapse)
  have "r \<noteq> Inr None"
    using 2 by (auto simp: CreateNetwork_def parseNetworkOptions_def new_network_def new_subnet_def
        writeToStore_def driver1_def Let_def)
  with CreateNetwork_all_or_nothing [OF 2] have "d' = driver1" by simp
  with 1 2 show ?thesis by simp
qed

section \<open>releaseVxlanID\<close>

lemma release_all_eq:
  "release_all a ss =
     (a\<lparr>idm_live := idm_live a - (\<lambda>s. unat (vni s)) ` set ss\<rparr>, map (\<lambda>s. s\<lparr>vni := 0\<rparr>) ss)"
proof (induction ss arbitrary: a)
  case Nil
  show ?case by simp
next
  case (Cons s ss)
  have "idm_live a - {unat (vni s)} - (\<lambda>s. unat (vni s)) ` set ss =
        idm_live a - insert (unat (vni s)) ((\<lambda>s. unat (vni s)) ` set ss)"
    by blast
  then show ?case by (simp add: Cons.IH Release_def)
qed

text \<open>
  C2 (amended). Without a datastore \<^verbatim>\<open>releaseVxlanID\<close> returns an error and changes
  nothing; with a datastore and no subnets it returns nil and changes nothing. With a
  datastore and subnets: when the atomic delete reports \<^verbatim>\<open>ErrKeyModified\<close> or
  \<^verbatim>\<open>ErrKeyNotFound\<close> it returns nil at once, releasing no id and zeroing no
  \<^verbatim>\<open>vni\<close>; on any other delete error it returns the wrapped error, again with nothing
  changed; when the delete succeeds it returns nil with every subnet's \<^verbatim>\<open>vni\<close> released
  to the allocator and set to 0.
\<close>

theorem releaseVxlanID_cases:
  assumes "releaseVxlanID del d n = (r, d', n', fx)"
  shows "(store d = None \<longrightarrow> r = Some ErrNoDatastoreRelease \<and> d' = d \<and> n' = n \<and> fx = []) \<and>
         (store d \<noteq> None \<and> subnets n = [] \<longrightarrow> r = None \<and> d' = d \<and> n' = n \<and> fx = []) \<and>
         (store d \<noteq> None \<and> subnets n \<noteq> [] \<longrightarrow>
            (del = Some ErrKeyModified \<or> del = Some ErrKeyNotFound \<longrightarrow>
               r = None \<and> d' = d \<and> n' = n \<and> fx = []) \<and>
            (\<forall>e. del = Some e \<and> e \<noteq> ErrKeyModified \<and> e \<noteq> ErrKeyNotFound \<longrightarrow>
               r = Some (ErrDeleteMap e) \<and> d' = d \<and> n' = n \<and> fx = []) \<and>
            (del = None \<longrightarrow>
               r = None \<and> fx = [StoreDelete (nid n)] \<and>
               n' = n\<lparr>subnets := map (\<lambda>s. s\<lparr>vni := 0\<rparr>) (subnets n)\<rparr> \<and>
               list_all (\<lambda>s. vni s = 0) (subnets n') \<and>
               d' = d\<lparr>vxlanIdm := (vxlanIdm d)\<lparr>idm_live :=
                      idm_live (vxlanIdm d) - (\<lambda>s. unat (vni s)) ` set (subnets n)\<rparr>\<rparr>))"
  using assms
  by (auto simp: releaseVxlanID_def release_all_eq list_all_iff split: if_splits option.splits)

theorem releaseVxlanID_cases_witness:
  "releaseVxlanID None driver1 network1 =
     (None, driver1\<lparr>vxlanIdm := idm1\<lparr>idm_live := {}\<rparr>\<rparr>, network0, [StoreDelete ''n1''])"
proof -
  obtain r d' n' fx where 1: "releaseVxlanID None driver1 network1 = (r, d', n', fx)"
    by (metis prod.collapse)
  have s: "store driver1 \<noteq> None \<and> subnets network1 \<noteq> []"
    by (simp add: driver1_def network1_def)
  from releaseVxlanID_cases [OF 1] s show ?thesis
    unfolding 1 by (simp add: driver1_def network1_def network0_def subnet0_def idm1_def)
qed

text \<open>
  The claim as stated fails: without a datastore the result is an error, not success;
  and after \<^verbatim>\<open>ErrKeyModified\<close> or \<^verbatim>\<open>ErrKeyNotFound\<close> the call returns nil while the
  subnet still has \<^verbatim>\<open>vni\<close> 256 and the allocator still holds 256 as live.
\<close>

theorem releaseVxlanID_counterexample:
  "fst (releaseVxlanID None (driver1\<lparr>store := None\<rparr>) network1) = Some ErrNoDatastoreRelease \<and>
   releaseVxlanID (Some ErrKeyModified) driver1 network1 = (None, driver1, network1, []) \<and>
   releaseVxlanID (Some ErrKeyNotFound) driver1 network1 = (None, driver1, network1, []) \<and>
   map vni (subnets network1) = [256] \<and> 256 \<in> idm_live (vxlanIdm driver1)"
  by (simp add: releaseVxlanID_def driver1_def network1_def idm1_def)

section \<open>The configuration codec\<close>

lemma fold_eq_fields:
  "fold_eq ''SubnetIP'' ''SubnetIP''" "\<not> fold_eq ''GwIP'' ''SubnetIP''" "fold_eq ''GwIP'' ''GwIP''"
  "\<not> fold_eq ''Vni'' ''SubnetIP''" "\<not> fold_eq ''Vni'' ''GwIP''" "fold_eq ''Vni'' ''Vni''"
  by (simp_all add: fold_eq_def to_lower_def)

lemma to_uint32_uint: "to_uint32 L (uint (v :: 32 word)) = v"
proof -
  have "uint v < 2 ^ 32" using uint_bounded [of v] by simp
  then show ?thesis by (simp add: to_uint32_def)
qed

lemma subnet_round_trip:
  assumes "cidr_ok L (subnetIP s)" "cidr_ok L (gwIP s)"
  shows "\<exists>j. subnet_MarshalJSON L s = Inr j \<and> j \<noteq> JNull \<and>
             subnet_UnmarshalJSON L j = Inr (None, decoded s)"
  using assms
  by (auto simp: cidr_ok_def subnet_MarshalJSON_def subnet_UnmarshalJSON_def obj_get_def
      to_uint32_uint decoded_def split: option.splits sum.splits)

lemma subnets_round_trip:
  "well_formed L ss \<Longrightarrow>
   \<exists>js. marshal_subnets L ss = Inr js \<and> decode_subnets L js = Inr (map (\<lambda>s. Some (decoded s)) ss)"
proof (induction ss)
  case Nil
  show ?case by simp
next
  case (Cons s ss)
  from Cons.prems have s: "cidr_ok L (subnetIP s)" "cidr_ok L (gwIP s)" and ss: "well_formed L ss"
    by (simp_all add: well_formed_def)
  from subnet_round_trip [OF s] obtain j where
    j: "subnet_MarshalJSON L s = Inr j" "j \<noteq> JNull" "subnet_UnmarshalJSON L j = Inr (None, decoded s)"
    by blast
  from Cons.IH [OF ss] obtain js where
    js: "marshal_subnets L ss = Inr js" "decode_subnets L js = Inr (map (\<lambda>s. Some (decoded s)) ss)"
    by blast
  show ?case using j js by simp
qed

lemma merge_new:
  "merge_subnets True (map (\<lambda>s. Some (decoded s)) ss) n =
     (Inr (), n\<lparr>subnets := subnets n @ map fresh_copy ss\<rparr>)"
  by (induction ss arbitrary: n) (simp_all add: decoded_def fresh_copy_def zero_subnet_def)

lemma legacy_record:
  assumes "cidr_ok L (subnetIP s)" "cidr_ok L (gwIP s)"
  shows "\<exists>kvs sj. subnetJSON_Marshal L s = Inr (JObj kvs) \<and>
           decode_fields kvs zero_subnetJSON False = (sj, False) \<and>
           zero_subnet\<lparr>vni := Vni sj, gwIP := ptr (ParseCIDR L (GwIP sj)),
                       subnetIP := ptr (ParseCIDR L (SubnetIP sj))\<rparr> = decoded s"
proof -
  have u: "0 \<le> uint (vni s)" "uint (vni s) < 2 ^ 32"
    using uint_bounded [of "vni s"] by simp_all
  show ?thesis using assms u
    by (auto simp: cidr_ok_def subnetJSON_Marshal_def fold_eq_fields ptr_def decoded_def
      zero_subnetJSON_def split: option.splits sum.splits)
qed

lemma legacy_round_trip:
  "well_formed L ss \<Longrightarrow>
   \<exists>js njs. legacy_records L ss = Inr js \<and> decode_legacy js = (njs, False) \<and>
            legacy_subnets L njs = Inr (map (\<lambda>s. Some (decoded s)) ss)"
proof (induction ss)
  case Nil
  show ?case by simp
next
  case (Cons s ss)
  from Cons.prems have s: "cidr_ok L (subnetIP s)" "cidr_ok L (gwIP s)" and ss: "well_formed L ss"
    by (simp_all add: well_formed_def)
  from legacy_record [OF s] obtain kvs sj where
    j: "subnetJSON_Marshal L s = Inr (JObj kvs)" "decode_fields kvs zero_subnetJSON False = (sj, False)"
      "zero_subnet\<lparr>vni := Vni sj, gwIP := ptr (ParseCIDR L (GwIP sj)),
                       subnetIP := ptr (ParseCIDR L (SubnetIP sj))\<rparr> = decoded s"
    by blast
  from Cons.IH [OF ss] obtain js njs where
    js: "legacy_records L ss = Inr js" "decode_legacy js = (njs, False)"
      "legacy_subnets L njs = Inr (map (\<lambda>s. Some (decoded s)) ss)"
    by blast
  show ?case using j js by simp
qed

text \<open>
  C4. For a configuration whose subnets are well formed and a network with no subnets
  yet (a new or just-hydrated one), \<^verbatim>\<open>Value\<close> encodes without a panic,
  \<^verbatim>\<open>networkConfiguration.UnmarshalJSON\<close> decodes the encoding to the configuration's flag
  and subnets, and \<^verbatim>\<open>SetValue\<close> of the encoding returns nil and leaves the network with
  the configuration's
  \<^verbatim>\<open>disableDefaultGW\<close> and its subnets in order, each with the same \<^verbatim>\<open>subnetIP\<close>,
  \<^verbatim>\<open>gwIP\<close> and \<^verbatim>\<open>vni\<close>; \<^verbatim>\<open>SetValue\<close> of the legacy bare-array encoding of the same
  subnets gives the same subnets with \<^verbatim>\<open>disableDefaultGW\<close> false.
\<close>

theorem codec_round_trip:
  assumes wf: "well_formed L (subnets cfg)" and new: "subnets n = []"
  shows "(\<exists>j. Value L cfg = Inr j \<and>
              nc_UnmarshalJSON L j =
                Inr (None, map (\<lambda>s. Some (decoded s)) (subnets cfg), disableDefaultGW cfg) \<and>
              SetValue L n (Some j) =
                (Inr None, n\<lparr>subnets := map fresh_copy (subnets cfg),
                              disableDefaultGW := disableDefaultGW cfg\<rparr>)) \<and>
         (\<exists>j. legacyEncoding L (subnets cfg) = Inr j \<and>
              SetValue L n (Some j) =
                (Inr None, n\<lparr>subnets := map fresh_copy (subnets cfg),
                              disableDefaultGW := False\<rparr>))"
proof
  from subnets_round_trip [OF wf] obtain js where
    js: "marshal_subnets L (subnets cfg) = Inr js"
        "decode_subnets L js = Inr (map (\<lambda>s. Some (decoded s)) (subnets cfg))"
    by blast
  show "\<exists>j. Value L cfg = Inr j \<and>
              nc_UnmarshalJSON L j =
                Inr (None, map (\<lambda>s. Some (decoded s)) (subnets cfg), disableDefaultGW cfg) \<and>
              SetValue L n (Some j) =
                (Inr None, n\<lparr>subnets := map fresh_copy (subnets cfg),
                              disableDefaultGW := disableDefaultGW cfg\<rparr>)"
    using js new
    by (simp add: Value_def nc_MarshalJSON_def SetValue_def nc_UnmarshalJSON_def obj_get_def
        apply_config_def merge_new)
next
  from legacy_round_trip [OF wf] obtain js njs where
    js: "legacy_records L (subnets cfg) = Inr js" "decode_legacy js = (njs, False)"
        "legacy_subnets L njs = Inr (map (\<lambda>s. Some (decoded s)) (subnets cfg))"
    by blast
  show "\<exists>j. legacyEncoding L (subnets cfg) = Inr j \<and>
              SetValue L n (Some j) =
                (Inr None, n\<lparr>subnets := map fresh_copy (subnets cfg),
                              disableDefaultGW := False\<rparr>)"
    using js new
    by (simp add: legacyEncoding_def SetValue_def nc_UnmarshalJSON_def legacy_Unmarshal_def
        apply_config_def merge_new)
qed

theorem codec_round_trip_witness:
  "well_formed lib0 (subnets network1) \<and> subnets (new_network ''n1'') = [] \<and>
   Value lib0 network1 =
     Inr (JObj [(''disableDefaultGW'', JBool False),
                (''subnets'', JArr [JObj [(''gwIP'', JStr ''10.0.1.1/24''),
                                          (''subnetIP'', JStr ''10.0.1.0/24''),
                                          (''vni'', JNum 256)]])]) \<and>
   SetValue lib0 (new_network ''n1'') (Some (projr (Value lib0 network1))) =
     (Inr None, network1) \<and>
   SetValue lib0 (new_network ''n1'') (Some (projr (legacyEncoding lib0 (subnets network1)))) =
     (Inr None, network1)"
proof -
  have wf: "well_formed lib0 (subnets network1)"
    by (simp add: well_formed_def cidr_ok_def lib0_def network1_def network0_def subnet0_def
        net_10_0_1_0_def gw_10_0_1_1_def)
  have new: "subnets (new_network ''n1'') = []" by (simp add: new_network_def)
  have v: "Value lib0 network1 =
     Inr (JObj [(''disableDefaultGW'', JBool False),
                (''subnets'', JArr [JObj [(''gwIP'', JStr ''10.0.1.1/24''),
                                          (''subnetIP'', JStr ''10.0.1.0/24''),
                                          (''vni'', JNum 256)]])])"
    by (simp add: Value_def nc_MarshalJSON_def subnet_MarshalJSON_def lib0_def network1_def
        network0_def subnet0_def net_10_0_1_0_def gw_10_0_1_1_def)
  have e: "new_network ''n1''\<lparr>subnets := map fresh_copy (subnets network1),
              disableDefaultGW := disableDefaultGW network1\<rparr> = network1"
       "new_network ''n1''\<lparr>subnets := map fresh_copy (subnets network1),
              disableDefaultGW := False\<rparr> = network1"
    by (simp_all add: new_network_def network1_def network0_def subnet0_def fresh_copy_def)
  from codec_round_trip [OF wf new] e wf new v show ?thesis by auto
qed


text \<open>
  C9. \<^verbatim>\<open>SetValue\<close> panics, returning no error, on the JSON object \<^verbatim>\<open>{}\<close> (no boolean
  \<^verbatim>\<open>disableDefaultGW\<close>), and on a configuration whose subnet object has no \<^verbatim>\<open>vni\<close>, a
  \<^verbatim>\<open>vni\<close> that is not a number, a \<^verbatim>\<open>gwIP\<close> that is not a string or (once its
  \<^verbatim>\<open>gwIP\<close> parses) a \<^verbatim>\<open>subnetIP\<close> that is not a string: each fails an unchecked type
  assertion. The network is left as it was.
\<close>

theorem SetValue_panics:
  "SetValue L n (Some (JObj [])) = (Inl TypeAssertion, n) \<and>
   SetValue L n (Some (JObj [(''disableDefaultGW'', JBool b), (''subnets'', JArr [JObj
       [(''gwIP'', JStr g), (''subnetIP'', JStr t)]])])) = (Inl TypeAssertion, n) \<and>
   SetValue L n (Some (JObj [(''disableDefaultGW'', JBool b), (''subnets'', JArr [JObj
       [(''gwIP'', JStr g), (''subnetIP'', JStr t), (''vni'', JStr v)]])])) =
     (Inl TypeAssertion, n) \<and>
   SetValue L n (Some (JObj [(''disableDefaultGW'', JBool b), (''subnets'', JArr [JObj
       [(''gwIP'', JNum k), (''subnetIP'', JStr t), (''vni'', JNum i)]])])) =
     (Inl TypeAssertion, n) \<and>
   (ParseCIDR L g = Inr x \<longrightarrow>
    SetValue L n (Some (JObj [(''disableDefaultGW'', JBool b), (''subnets'', JArr [JObj
       [(''gwIP'', JStr g), (''subnetIP'', JNum k), (''vni'', JNum i)]])])) =
     (Inl TypeAssertion, n))"
  by (simp add: SetValue_def nc_UnmarshalJSON_def subnet_UnmarshalJSON_def obj_get_def)

theorem SetValue_panics_witness:
  "ParseCIDR lib0 ''10.0.1.1/24'' = Inr gw_10_0_1_1 \<and>
   SetValue lib0 network0 (Some (JObj [(''disableDefaultGW'', JBool False), (''subnets'', JArr [JObj
       [(''gwIP'', JStr ''10.0.1.1/24''), (''subnetIP'', JNum 7), (''vni'', JNum 256)]])])) =
     (Inl TypeAssertion, network0) \<and>
   SetValue lib0 network0 (Some (JObj [])) = (Inl TypeAssertion, network0)"
proof -
  have p: "ParseCIDR lib0 ''10.0.1.1/24'' = Inr gw_10_0_1_1" by (simp add: lib0_def)
  from SetValue_panics [of lib0 network0 False "''10.0.1.1/24''" _ _ 7 256 gw_10_0_1_1] p
  show ?thesis by simp
qed

lemma SetValue_syntax_error: "SetValue L n None = (Inr (Some ErrSyntax), n)"
  by (simp add: SetValue_def)

lemma SetValue_type_error: "SetValue L n (Some (JStr t)) = (Inr (Some ErrUnmarshalType), n)"
  by (simp add: SetValue_def nc_UnmarshalJSON_def legacy_Unmarshal_def)

section \<open>obtainVxlanID\<close>

lemma setVxlanID_simps:
  "length (subnets (setVxlanID n i v)) = length (subnets n)"
  "nid (setVxlanID n i v) = nid n"
  "i < length (subnets n) \<Longrightarrow> vni (subnets (setVxlanID n i v) ! i) = v"
  by (simp_all add: setVxlanID_def)

lemma setVxlanID_twice:
  "i < length (subnets n) \<Longrightarrow> setVxlanID (setVxlanID n i v) i w = setVxlanID n i w"
  by (simp add: setVxlanID_def)

lemma setVxlanID_same: "vni (subnets n ! i) = v \<Longrightarrow> setVxlanID n i v = n"
proof -
  assume a: "vni (subnets n ! i) = v"
  have "(subnets n ! i)\<lparr>vni := v\<rparr> = subnets n ! i" using a by simp
  then show ?thesis by (simp add: setVxlanID_def)
qed

lemma merge_old_frame:
  "merge_subnets False ss n = (r, n') \<Longrightarrow>
   length (subnets n') = length (subnets n) \<and> nid n' = nid n"
proof (induction ss arbitrary: n)
  case Nil
  then show ?case by simp
next
  case (Cons so ss)
  show ?case
  proof (cases so)
    case None
    with Cons.prems show ?thesis by simp
  next
    case (Some s)
    show ?thesis
    proof (cases "getMatchingSubnet n (subnetIP s)")
      case (Inl k)
      with Some Cons.prems show ?thesis by simp
    next
      case (Inr io)
      show ?thesis
      proof (cases io)
        case None
        with Inr Some Cons.prems Cons.IH [of n] show ?thesis by simp
      next
        case (Some j)
        with Inr \<open>so = Some s\<close> Cons.prems Cons.IH [of "setVxlanID n j (vni s)"]
        show ?thesis by (simp add: setVxlanID_simps)
      qed
    qed
  qed
qed

lemma SetValue_old_frame:
  assumes "subnets n \<noteq> []" "SetValue L n v = (r, n')"
  shows "length (subnets n') = length (subnets n) \<and> nid n' = nid n \<and>
         (\<forall>e. r = Inr (Some e) \<longrightarrow> n' = n)"
proof -
  have ac: "\<And>ss dgw r n'. apply_config False ss dgw n = (r, n') \<Longrightarrow>
      length (subnets n') = length (subnets n) \<and> nid n' = nid n \<and> (\<forall>e. r \<noteq> Inr (Some e))"
    using merge_old_frame [of _ "n\<lparr>disableDefaultGW := _\<rparr>"]
    by (fastforce simp: apply_config_def split: prod.splits sum.splits)
  show ?thesis
    using assms ac
    by (auto simp: SetValue_def Let_def
      split: option.splits json.splits sum.splits prod.splits if_splits)
qed


lemma GetObject_frame:
  assumes "subnets n \<noteq> []" "GetObject L n g = (r, n', fx)"
  shows "length (subnets n') = length (subnets n) \<and> nid n' = nid n \<and>
         (\<forall>e. r = Inr (Some e) \<longrightarrow> n' = n)"
proof (cases g)
  case (Inl e)
  with assms(2) show ?thesis by (simp add: GetObject_def)
next
  case (Inr p)
  obtain v index where p: "p = (v, index)" by (cases p)
  obtain r0 n0 where sv: "SetValue L n v = (r0, n0)" by (cases "SetValue L n v")
  from SetValue_old_frame [OF assms(1) sv] assms(2) Inr p sv show ?thesis
    by (auto simp: GetObject_def SetIndex_def split: sum.splits option.splits)
qed

lemma find_Some_set: "find P xs = Some x \<Longrightarrow> P x \<and> x \<in> set xs"
  by (induction xs) (auto split: if_splits)

lemma GetID_Inr:
  assumes "GetID a = (Inr v, a')"
  shows "v \<notin> idm_live a \<and> idm_start a \<le> v \<and> v \<le> idm_end a \<and>
         a' = a\<lparr>idm_live := insert v (idm_live a)\<rparr>"
proof -
  from assms have f: "find (\<lambda>i. i \<notin> idm_live a) [idm_start a ..< Suc (idm_end a)] = Some v"
    and a': "a' = a\<lparr>idm_live := insert v (idm_live a)\<rparr>"
    by (auto simp: GetID_def simp del: upt_Suc split: option.splits)
  from find_Some_set [OF f]
  have "v \<notin> idm_live a \<and> v \<in> set [idm_start a ..< Suc (idm_end a)]" .
  with a' show ?thesis by (simp del: upt_Suc)
qed

lemma GetID_Inl: "GetID a = (Inl e, a') \<Longrightarrow> a' = a"
  by (auto simp: GetID_def split: option.splits)

lemma Release_GetID: "v \<notin> idm_live a \<Longrightarrow> Release (a\<lparr>idm_live := insert v (idm_live a)\<rparr>) v = a"
  by (simp add: Release_def)

lemma unat_id32: "v < 2 ^ 32 \<Longrightarrow> unat (of_nat v :: 32 word) = v"
  by (simp add: unat_of_nat)

lemma add_fx_Some:
  "add_fx fx0 r = Some (e, d, n, fx) \<Longrightarrow> \<exists>fx'. r = Some (e, d, n, fx') \<and> fx = fx0 @ fx'"
  by (cases r) (auto simp: add_fx_def)


lemma writeToStore_cases:
  "store d \<noteq> None \<Longrightarrow>
   writeToStore d n w =
     (case w of
        Inl e \<Rightarrow> (Inr (Some e), n, [])
      | Inr index \<Rightarrow> (Inr None, SetIndex n index, [StorePut n]))"
  by (auto simp: writeToStore_def split: sum.splits)

lemma obtain_round_KeyModified:
  assumes i: "i < length (subnets n1)" and z: "vni (subnets n1 ! i) = 0"
    and st: "store d \<noteq> None" and hi: "idm_end (vxlanIdm d) < 2 ^ 32"
    and g: "GetObject L n (get_res e) = (Inr None, n1, fx0)"
    and a: "GetID (vxlanIdm d) = (Inr v, a)"
    and w: "write_res e = Inl ErrKeyModified"
  shows "obtain_loop L (e # es) d n i = add_fx fx0 (obtain_loop L es d n1 i)"
proof -
  from GetID_Inr [OF a] have v: "v \<notin> idm_live (vxlanIdm d)" "v \<le> idm_end (vxlanIdm d)"
    and a': "a = (vxlanIdm d)\<lparr>idm_live := insert v (idm_live (vxlanIdm d))\<rparr>" by simp_all
  have v32: "unat (of_nat v :: 32 word) = v" using v(2) hi by (simp add: unat_id32)
  have rel: "Release a v = vxlanIdm d" using v(1) a' by (simp add: Release_GetID)
  have restored: "setVxlanID (setVxlanID n1 i (of_nat v)) i 0 = n1"
    using i z by (simp add: setVxlanID_twice setVxlanID_same)
  show ?thesis
    using g a w z st i
    by (simp add: writeToStore_cases setVxlanID_simps v32 rel restored)
qed

lemma obtain_round_write_error:
  assumes i: "i < length (subnets n1)" and z: "vni (subnets n1 ! i) = 0"
    and st: "store d \<noteq> None" and hi: "idm_end (vxlanIdm d) < 2 ^ 32"
    and g: "GetObject L n (get_res e) = (Inr None, n1, fx0)"
    and a: "GetID (vxlanIdm d) = (Inr v, a)"
    and w: "write_res e = Inl err" "err \<noteq> ErrKeyModified"
  shows "obtain_loop L (e # es) d n i =
           Some (Inr (Some (ErrUpdateNetwork (nid n) err)), d, n1, fx0)"
proof -
  from GetID_Inr [OF a] have v: "v \<notin> idm_live (vxlanIdm d)" "v \<le> idm_end (vxlanIdm d)"
    and a': "a = (vxlanIdm d)\<lparr>idm_live := insert v (idm_live (vxlanIdm d))\<rparr>" by simp_all
  have v32: "unat (of_nat v :: 32 word) = v" using v(2) hi by (simp add: unat_id32)
  have rel: "Release a v = vxlanIdm d" using v(1) a' by (simp add: Release_GetID)
  have restored: "setVxlanID (setVxlanID n1 i (of_nat v)) i 0 = n1"
    using i z by (simp add: setVxlanID_twice setVxlanID_same)
  show ?thesis
    using g a w z st i
    by (simp add: writeToStore_cases setVxlanID_simps v32 rel restored)
qed

lemma obtain_round_write_ok:
  assumes i: "i < length (subnets n1)" and z: "vni (subnets n1 ! i) = 0"
    and st: "store d \<noteq> None"
    and g: "GetObject L n (get_res e) = (Inr None, n1, fx0)"
    and a: "GetID (vxlanIdm d) = (Inr v, a)"
    and w: "write_res e = Inr index"
  shows "obtain_loop L (e # es) d n i =
           Some (Inr None, d\<lparr>vxlanIdm := a\<rparr>,
                 SetIndex (setVxlanID n1 i (of_nat v)) index,
                 fx0 @ [StorePut (setVxlanID n1 i (of_nat v))])"
  using g a w z st i by (simp add: writeToStore_cases)


lemma obtain_loop_inv:
  assumes st: "store d \<noteq> None" and lo: "0 < idm_start (vxlanIdm d)"
    and hi: "idm_end (vxlanIdm d) < 2 ^ 32"
  shows "i < length (subnets n) \<Longrightarrow> vni (subnets n ! i) = 0 \<Longrightarrow>
         obtain_loop L es d n i = Some (r, d', n', fx) \<Longrightarrow>
         length (subnets n') = length (subnets n) \<and>
         (r = Inr None \<longrightarrow>
            vni (subnets n' ! i) \<noteq> 0 \<and>
            (d' = d \<or>
             unat (vni (subnets n' ! i)) \<notin> idm_live (vxlanIdm d) \<and>
             d' = d\<lparr>vxlanIdm := (vxlanIdm d)\<lparr>idm_live :=
                     insert (unat (vni (subnets n' ! i))) (idm_live (vxlanIdm d))\<rparr>\<rparr> \<and>
             fx \<noteq> [] \<and>
             (\<exists>m. last fx = StorePut m \<and> vni (subnets m ! i) = vni (subnets n' ! i)))) \<and>
         (\<forall>err. r = Inr (Some err) \<longrightarrow> d' = d \<and> vni (subnets n' ! i) = 0)"
proof (induction es arbitrary: n fx)
  case Nil
  then show ?case by simp
next
  case (Cons e es)
  note i = Cons.prems(1) and z = Cons.prems(2) and res = Cons.prems(3)
  obtain rg n1 fx0 where g: "GetObject L n (get_res e) = (rg, n1, fx0)"
    by (cases "GetObject L n (get_res e)")
  have ne: "subnets n \<noteq> []" using i by auto
  from GetObject_frame [OF ne g]
  have len: "length (subnets n1) = length (subnets n)" and same: "\<forall>e. rg = Inr (Some e) \<longrightarrow> n1 = n"
    by simp_all
  have i1: "i < length (subnets n1)" using i len by simp
  show ?case
  proof (cases rg)
    case (Inl k)
    with g res len show ?thesis by auto
  next
    case (Inr eo)
    show ?thesis
    proof (cases eo)
      case (Some err)
      with Inr g res same z show ?thesis by auto
    next
      case None
      note g' = g [unfolded Inr None]
      show ?thesis
      proof (cases "vni (subnets n1 ! i) = 0")
        case False
        with g' res len show ?thesis by auto
      next
        case True
        obtain ra a where a: "GetID (vxlanIdm d) = (ra, a)" by (cases "GetID (vxlanIdm d)")
        show ?thesis
        proof (cases ra)
          case (Inl err)
          with g' True a res len show ?thesis by auto
        next
          case (Inr v)
          note a' = a [unfolded Inr]
          from GetID_Inr [OF a']
          have v: "v \<notin> idm_live (vxlanIdm d)" "idm_start (vxlanIdm d) \<le> v"
            "v \<le> idm_end (vxlanIdm d)"
            and av: "a = (vxlanIdm d)\<lparr>idm_live := insert v (idm_live (vxlanIdm d))\<rparr>"
            by simp_all
          have v32: "unat (of_nat v :: 32 word) = v" using v(3) hi by (simp add: unat_id32)
          have vnz: "(of_nat v :: 32 word) \<noteq> 0"
          proof
            assume "(of_nat v :: 32 word) = 0"
            then have "unat (of_nat v :: 32 word) = 0" by simp
            with v32 v(2) lo show False by simp
          qed
          show ?thesis
          proof (cases "write_res e")
            case (Inl err)
            show ?thesis
            proof (cases "err = ErrKeyModified")
              case True
              with Inl have w: "write_res e = Inl ErrKeyModified" by simp
              from obtain_round_KeyModified [OF i1 \<open>vni (subnets n1 ! i) = 0\<close> st hi g' a' w] res
              have "add_fx fx0 (obtain_loop L es d n1 i) = Some (r, d', n', fx)" by simp
              from add_fx_Some [OF this] obtain fx' where
                r': "obtain_loop L es d n1 i = Some (r, d', n', fx')" and fx: "fx = fx0 @ fx'"
                by blast
              from Cons.IH [OF i1 \<open>vni (subnets n1 ! i) = 0\<close> r'] len fx
              show ?thesis by auto
            next
              case False
              from obtain_round_write_error [OF i1 \<open>vni (subnets n1 ! i) = 0\<close> st hi g' a' Inl False]
                res len \<open>vni (subnets n1 ! i) = 0\<close>
              show ?thesis by auto
            qed
          next
            case (Inr index)
            from obtain_round_write_ok [OF i1 \<open>vni (subnets n1 ! i) = 0\<close> st g' a' Inr] res
            have r: "r = Inr None" and d': "d' = d\<lparr>vxlanIdm := a\<rparr>"
              and n': "n' = SetIndex (setVxlanID n1 i (of_nat v)) index"
              and fx: "fx = fx0 @ [StorePut (setVxlanID n1 i (of_nat v))]"
              by simp_all
            have vn: "vni (subnets n' ! i) = of_nat v"
              using i1 by (simp add: n' SetIndex_def setVxlanID_simps)
            have ln: "length (subnets n') = length (subnets n)"
              using len by (simp add: n' SetIndex_def setVxlanID_simps)
            have m: "vni (subnets (setVxlanID n1 i (of_nat v)) ! i) = of_nat v"
              using i1 by (simp add: setVxlanID_simps)
            show ?thesis
              using r d' av vn ln v(1) v32 vnz fx m by simp
          qed
        qed
      qed
    qed
  qed
qed


lemma obtain_loop_progress:
  "store d \<noteq> None \<Longrightarrow> write_res e \<noteq> Inl ErrKeyModified \<Longrightarrow> obtain_loop L (e # es) d n i \<noteq> None"
  by (auto simp: writeToStore_cases Let_def split: prod.splits sum.splits option.splits)

text \<open>
  C1. For the \<open>i\<close>-th subnet of a network, with an allocator whose ids lie in
  \<open>1 .. 2^32 - 1\<close>: when the subnet's \<^verbatim>\<open>vni\<close> is not 0, \<^verbatim>\<open>obtainVxlanID\<close> returns nil at
  once, with the driver and the network as they were and the store untouched. When it is
  0 and a datastore is configured, a round that re-reads the network, still finds
  \<^verbatim>\<open>vni\<close> 0 and acquires an id goes on by the answer to the write: after
  \<^verbatim>\<open>ErrKeyModified\<close> the id is back in the allocator, the \<^verbatim>\<open>vni\<close> is 0 again and the loop
  restarts from the network as re-read; after any other error the id is released, the
  \<^verbatim>\<open>vni\<close> reset and the wrapped error returned; after success the call returns nil with
  the id on the subnet. A round whose write does not end in \<^verbatim>\<open>ErrKeyModified\<close> makes the
  call return. Whenever the call returns nil the subnet has a non-zero \<^verbatim>\<open>vni\<close>, and
  either the driver is as before (the \<^verbatim>\<open>vni\<close> was read from the store) or the last thing
  done was a successful put of the network with that \<^verbatim>\<open>vni\<close>, an id that was free
  before, and it is the only id added to the allocator's live set. Whenever the call
  returns an error the driver is as before and the subnet's \<^verbatim>\<open>vni\<close> is 0.
\<close>

theorem obtainVxlanID_spec:
  assumes i: "i < length (subnets n)" and lo: "0 < idm_start (vxlanIdm d)"
    and hi: "idm_end (vxlanIdm d) < 2 ^ 32"
  shows
   "(vni (subnets n ! i) \<noteq> 0 \<longrightarrow> obtainVxlanID L es d n i = Some (Inr None, d, n, [])) \<and>
    (vni (subnets n ! i) = 0 \<and> store d \<noteq> None \<longrightarrow>
       (\<forall>e es' n1 fx0 v a.
          es = e # es' \<and> GetObject L n (get_res e) = (Inr None, n1, fx0) \<and>
          vni (subnets n1 ! i) = 0 \<and> GetID (vxlanIdm d) = (Inr v, a) \<longrightarrow>
            (write_res e = Inl ErrKeyModified \<longrightarrow>
               obtainVxlanID L es d n i = add_fx fx0 (obtainVxlanID L es' d n1 i)) \<and>
            (\<forall>err. write_res e = Inl err \<and> err \<noteq> ErrKeyModified \<longrightarrow>
               obtainVxlanID L es d n i =
                 Some (Inr (Some (ErrUpdateNetwork (nid n) err)), d, n1, fx0)) \<and>
            (\<forall>index. write_res e = Inr index \<longrightarrow>
               obtainVxlanID L es d n i =
                 Some (Inr None, d\<lparr>vxlanIdm := a\<rparr>,
                       SetIndex (setVxlanID n1 i (of_nat v)) index,
                       fx0 @ [StorePut (setVxlanID n1 i (of_nat v))]))) \<and>
       (\<forall>e es'. es = e # es' \<and> write_res e \<noteq> Inl ErrKeyModified \<longrightarrow>
          obtainVxlanID L es d n i \<noteq> None) \<and>
       (\<forall>r d' n' fx. obtainVxlanID L es d n i = Some (r, d', n', fx) \<longrightarrow>
          length (subnets n') = length (subnets n) \<and>
          (r = Inr None \<longrightarrow>
             vni (subnets n' ! i) \<noteq> 0 \<and>
             (d' = d \<or>
              unat (vni (subnets n' ! i)) \<notin> idm_live (vxlanIdm d) \<and>
              d' = d\<lparr>vxlanIdm := (vxlanIdm d)\<lparr>idm_live :=
                      insert (unat (vni (subnets n' ! i))) (idm_live (vxlanIdm d))\<rparr>\<rparr> \<and>
              fx \<noteq> [] \<and>
              (\<exists>m. last fx = StorePut m \<and> vni (subnets m ! i) = vni (subnets n' ! i)))) \<and>
          (\<forall>err. r = Inr (Some err) \<longrightarrow> d' = d \<and> vni (subnets n' ! i) = 0)))"
proof (intro conjI impI)
  assume "vni (subnets n ! i) \<noteq> 0"
  then show "obtainVxlanID L es d n i = Some (Inr None, d, n, [])"
    by (simp add: obtainVxlanID_def)
next
  assume c: "vni (subnets n ! i) = 0 \<and> store d \<noteq> None"
  then have z: "vni (subnets n ! i) = 0" and st: "store d \<noteq> None" by simp_all
  have loop: "\<And>es. obtainVxlanID L es d n i = obtain_loop L es d n i"
    using z st by (auto simp: obtainVxlanID_def)
  have ne: "subnets n \<noteq> []" using i by auto
  show "\<forall>e es' n1 fx0 v a.
          es = e # es' \<and> GetObject L n (get_res e) = (Inr None, n1, fx0) \<and>
          vni (subnets n1 ! i) = 0 \<and> GetID (vxlanIdm d) = (Inr v, a) \<longrightarrow>
            (write_res e = Inl ErrKeyModified \<longrightarrow>
               obtainVxlanID L es d n i = add_fx fx0 (obtainVxlanID L es' d n1 i)) \<and>
            (\<forall>err. write_res e = Inl err \<and> err \<noteq> ErrKeyModified \<longrightarrow>
               obtainVxlanID L es d n i =
                 Some (Inr (Some (ErrUpdateNetwork (nid n) err)), d, n1, fx0)) \<and>
            (\<forall>index. write_res e = Inr index \<longrightarrow>
               obtainVxlanID L es d n i =
                 Some (Inr None, d\<lparr>vxlanIdm := a\<rparr>,
                       SetIndex (setVxlanID n1 i (of_nat v)) index,
                       fx0 @ [StorePut (setVxlanID n1 i (of_nat v))]))"
  proof (intro allI impI conjI)
    fix e es' n1 fx0 v a
    assume h: "es = e # es' \<and> GetObject L n (get_res e) = (Inr None, n1, fx0) \<and>
          vni (subnets n1 ! i) = 0 \<and> GetID (vxlanIdm d) = (Inr v, a)"
    then have es: "es = e # es'" and g: "GetObject L n (get_res e) = (Inr None, n1, fx0)"
      and z1: "vni (subnets n1 ! i) = 0" and a: "GetID (vxlanIdm d) = (Inr v, a)" by simp_all
    from GetObject_frame [OF ne g] i have i1: "i < length (subnets n1)" by simp
    have loop1: "obtainVxlanID L es' d n1 i = obtain_loop L es' d n1 i"
      using z1 st by (auto simp: obtainVxlanID_def)
    {
      assume w: "write_res e = Inl ErrKeyModified"
      show "obtainVxlanID L es d n i = add_fx fx0 (obtainVxlanID L es' d n1 i)"
        using obtain_round_KeyModified [OF i1 z1 st hi g a w] by (simp add: loop loop1 es)
    }
    {
      fix err
      assume w: "write_res e = Inl err \<and> err \<noteq> ErrKeyModified"
      then have w1: "write_res e = Inl err" and w2: "err \<noteq> ErrKeyModified" by simp_all
      show "obtainVxlanID L es d n i =
                 Some (Inr (Some (ErrUpdateNetwork (nid n) err)), d, n1, fx0)"
        using obtain_round_write_error [OF i1 z1 st hi g a w1 w2] by (simp add: loop es)
    }
    {
      fix index
      assume w: "write_res e = Inr index"
      show "obtainVxlanID L es d n i =
                 Some (Inr None, d\<lparr>vxlanIdm := a\<rparr>,
                       SetIndex (setVxlanID n1 i (of_nat v)) index,
                       fx0 @ [StorePut (setVxlanID n1 i (of_nat v))])"
        using obtain_round_write_ok [OF i1 z1 st g a w] by (simp add: loop es)
    }
  qed
  show "\<forall>e es'. es = e # es' \<and> write_res e \<noteq> Inl ErrKeyModified \<longrightarrow>
          obtainVxlanID L es d n i \<noteq> None"
    using obtain_loop_progress [OF st] by (simp add: loop)
  show "\<forall>r d' n' fx. obtainVxlanID L es d n i = Some (r, d', n', fx) \<longrightarrow>
          length (subnets n') = length (subnets n) \<and>
          (r = Inr None \<longrightarrow>
             vni (subnets n' ! i) \<noteq> 0 \<and>
             (d' = d \<or>
              unat (vni (subnets n' ! i)) \<notin> idm_live (vxlanIdm d) \<and>
              d' = d\<lparr>vxlanIdm := (vxlanIdm d)\<lparr>idm_live :=
                      insert (unat (vni (subnets n' ! i))) (idm_live (vxlanIdm d))\<rparr>\<rparr> \<and>
              fx \<noteq> [] \<and>
              (\<exists>m. last fx = StorePut m \<and> vni (subnets m ! i) = vni (subnets n' ! i)))) \<and>
          (\<forall>err. r = Inr (Some err) \<longrightarrow> d' = d \<and> vni (subnets n' ! i) = 0)"
    using obtain_loop_inv [OF st lo hi i z] unfolding loop by blast
qed

theorem obtainVxlanID_spec_witness:
  "0 < length (subnets network0) \<and> 0 < idm_start (vxlanIdm driver2) \<and>
   idm_end (vxlanIdm driver2) < 2 ^ 32 \<and>
   obtainVxlanID lib0 [round_modified, round_written] driver2 network0 0 =
     Some (Inr None, driver2\<lparr>vxlanIdm := idm2\<lparr>idm_live := {256, 257}\<rparr>\<rparr>,
           network0\<lparr>dbIndex := 5, dbExists := True, subnets := [subnet0\<lparr>vni := 257\<rparr>]\<rparr>,
           [StoreGet ''n1'', StoreGet ''n1'',
            StorePut (network0\<lparr>dbIndex := 4, dbExists := True,
                               subnets := [subnet0\<lparr>vni := 257\<rparr>]\<rparr>)]) \<and>
   obtainVxlanID lib0 [] driver2 network1 0 = Some (Inr None, driver2, network1, [])"
proof -
  let ?n1 = "network0\<lparr>dbIndex := 3, dbExists := True\<rparr>"
  let ?n2 = "network0\<lparr>dbIndex := 4, dbExists := True\<rparr>"
  have h: "0 < length (subnets network0)" "0 < idm_start (vxlanIdm driver2)"
    "idm_end (vxlanIdm driver2) < 2 ^ 32"
    by (simp_all add: network0_def driver2_def idm2_def)
  have h1: "0 < length (subnets ?n1)" by (simp add: network0_def)
  have h3: "0 < length (subnets network1)" by (simp add: network1_def network0_def)
  have z: "vni (subnets network0 ! 0) = 0 \<and> store driver2 \<noteq> None"
    "vni (subnets ?n1 ! 0) = 0 \<and> store driver2 \<noteq> None"
    by (simp_all add: network0_def subnet0_def driver2_def)
  have z2: "vni (subnets ?n1 ! 0) = 0" "vni (subnets ?n2 ! 0) = 0"
    by (simp_all add: network0_def subnet0_def)
  have nz: "vni (subnets network1 ! 0) \<noteq> 0"
    by (simp add: network1_def network0_def subnet0_def)
  have g1: "GetObject lib0 network0 (get_res round_modified) = (Inr None, ?n1, [StoreGet ''n1''])"
    by code_simp
  have g2: "GetObject lib0 ?n1 (get_res round_written) = (Inr None, ?n2, [StoreGet ''n1''])"
    by code_simp
  have a: "GetID (vxlanIdm driver2) = (Inr 257, idm2\<lparr>idm_live := {256, 257}\<rparr>)"
    by code_simp
  have w: "write_res round_modified = Inl ErrKeyModified" "write_res round_written = Inr 5"
    by (simp_all add: round_modified_def round_written_def)
  have p1: "[round_modified, round_written] = round_modified # [round_written] \<and>
      GetObject lib0 network0 (get_res round_modified) = (Inr None, ?n1, [StoreGet ''n1'']) \<and>
      vni (subnets ?n1 ! 0) = 0 \<and>
      GetID (vxlanIdm driver2) = (Inr 257, idm2\<lparr>idm_live := {256, 257}\<rparr>)"
    using g1 a z2(1) by simp
  have p2: "[round_written] = round_written # [] \<and>
      GetObject lib0 ?n1 (get_res round_written) = (Inr None, ?n2, [StoreGet ''n1'']) \<and>
      vni (subnets ?n2 ! 0) = 0 \<and>
      GetID (vxlanIdm driver2) = (Inr 257, idm2\<lparr>idm_live := {256, 257}\<rparr>)"
    using g2 a z2(2) by simp
  note T1 = obtainVxlanID_spec [OF h, of lib0 "[round_modified, round_written]",
      THEN conjunct2, THEN mp, OF z(1), THEN conjunct1, rule_format, OF p1]
  note T2 = obtainVxlanID_spec [OF h1 h(2,3), of lib0 "[round_written]",
      THEN conjunct2, THEN mp, OF z(2), THEN conjunct1, rule_format, OF p2]
  have step1: "obtainVxlanID lib0 [round_modified, round_written] driver2 network0 0 =
      add_fx [StoreGet ''n1''] (obtainVxlanID lib0 [round_written] driver2 ?n1 0)"
    by (rule T1 [THEN conjunct1, THEN mp, OF w(1)])
  have step2: "obtainVxlanID lib0 [round_written] driver2 ?n1 0 =
      Some (Inr None, driver2\<lparr>vxlanIdm := idm2\<lparr>idm_live := {256, 257}\<rparr>\<rparr>,
            SetIndex (setVxlanID ?n2 0 (of_nat 257)) 5,
            [StoreGet ''n1''] @ [StorePut (setVxlanID ?n2 0 (of_nat 257))])"
    by (rule T2 [THEN conjunct2, THEN conjunct2, rule_format, OF w(2)])
  have step3: "obtainVxlanID lib0 [] driver2 network1 0 = Some (Inr None, driver2, network1, [])"
    by (rule obtainVxlanID_spec [OF h3 h(2,3), of lib0 "[]", THEN conjunct1, THEN mp, OF nz])
  have fin: "setVxlanID ?n2 0 257 =
        network0\<lparr>dbIndex := 4, dbExists := True, subnets := [subnet0\<lparr>vni := 257\<rparr>]\<rparr>"
      "SetIndex (network0\<lparr>dbIndex := 4, dbExists := True, subnets := [subnet0\<lparr>vni := 257\<rparr>]\<rparr>) 5 =
        network0\<lparr>dbIndex := 5, dbExists := True, subnets := [subnet0\<lparr>vni := 257\<rparr>]\<rparr>"
    by code_simp+
  have run: "obtainVxlanID lib0 [round_modified, round_written] driver2 network0 0 =
     Some (Inr None, driver2\<lparr>vxlanIdm := idm2\<lparr>idm_live := {256, 257}\<rparr>\<rparr>,
           network0\<lparr>dbIndex := 5, dbExists := True, subnets := [subnet0\<lparr>vni := 257\<rparr>]\<rparr>,
           [StoreGet ''n1'', StoreGet ''n1'',
            StorePut (network0\<lparr>dbIndex := 4, dbExists := True,
                               subnets := [subnet0\<lparr>vni := 257\<rparr>]\<rparr>)])"
    unfolding step1 step2 by (simp add: add_fx_def fin)
  show ?thesis
    using h step3 run by simp
qed

end
